theory Spec2Isabelle
  imports Main
begin

section \<open>Data model of \<open>project.py\<close>\<close>

text \<open>
  The two enumerations and the two dataclasses of the source. A Python \<open>Set[str]\<close> is
  represented by the list of its elements in iteration order; two such lists stand for
  the same Python set exactly when they have the same \<^const>\<open>set\<close>. Python's \<open>int\<close> is
  \<^typ>\<open>int\<close>.
\<close>

datatype EstadoCompra = PENDIENTE | COMPRADO

datatype CategoriaReceta = DESAYUNO | ALMUERZO | CENA | POSTRE

record Receta =
  nombre :: string
  categoria :: CategoriaReceta
  ingredientes :: "string list"
  pasos :: "string list"
  tiempo_preparacion :: int

record ItemCompra =
  nombre :: string
  estado :: EstadoCompra

text \<open>
  \<open>ItemCompra(ingrediente)\<close>: the dataclass default for \<open>estado\<close> is
  \<open>EstadoCompra.PENDIENTE\<close>.
\<close>

definition ItemCompra_nuevo :: "string \<Rightarrow> ItemCompra" where
  "ItemCompra_nuevo n = \<lparr>ItemCompra.nombre = n, estado = PENDIENTE\<rparr>"

subsection \<open>Python dictionaries\<close>

text \<open>
  A \<open>dict\<close> keeps insertion order, and the source reads that order (when it saves the
  shopping list and when the menu picks an entry by its position), so a dictionary is an
  association list. \<open>d[k] = v\<close> replaces the value in place when \<open>k\<close> is a key and appends
  otherwise; \<open>del d[k]\<close> drops the entry.
\<close>

type_synonym ('k, 'v) dict = "('k \<times> 'v) list"

definition claves :: "('k, 'v) dict \<Rightarrow> 'k list" where
  "claves d = map fst d"

definition valores :: "('k, 'v) dict \<Rightarrow> 'v list" where
  "valores d = map snd d"

fun dict_set :: "('k, 'v) dict \<Rightarrow> 'k \<Rightarrow> 'v \<Rightarrow> ('k, 'v) dict" where
  "dict_set [] k v = [(k, v)]"
| "dict_set ((k', v') # d) k v =
     (if k' = k then (k, v) # d else (k', v') # dict_set d k v)"

definition dict_del :: "('k, 'v) dict \<Rightarrow> 'k \<Rightarrow> ('k, 'v) dict" where
  "dict_del d k = filter (\<lambda>kv. fst kv \<noteq> k) d"

subsection \<open>Python sets, as lists\<close>

text \<open>\<open>a.union(b)\<close>, \<open>a - b\<close> and \<open>set(xs)\<close> on the list representation.\<close>

definition set_union :: "'a list \<Rightarrow> 'a list \<Rightarrow> 'a list" where
  "set_union a b = a @ filter (\<lambda>x. x \<notin> set a) (remdups b)"

definition set_diff :: "'a list \<Rightarrow> 'a list \<Rightarrow> 'a list" where
  "set_diff a b = filter (\<lambda>x. x \<notin> set b) a"

definition set_de_lista :: "'a list \<Rightarrow> 'a list" where
  "set_de_lista xs = remdups xs"

subsection \<open>The manager\<close>

text \<open>
  \<open>GestorRecetas\<close> holds the two dictionaries. Its other attributes (\<open>archivo\<close>, the
  constant file name, and \<open>colores\<close>, the terminal escape codes) are never assigned after
  \<open>__init__\<close> and are left out; the file itself is passed to the persistence functions.
\<close>

record GestorRecetas =
  recetas :: "(string, Receta) dict"
  lista_compras :: "(string, ItemCompra) dict"

definition GestorRecetas_init :: GestorRecetas where
  "GestorRecetas_init = \<lparr>recetas = [], lista_compras = []\<rparr>"

text \<open>
  \<open>reduce(lambda acc, r: acc.union(r.ingredientes), self.recetas.values(), set())\<close>,
  the expression shared by \<open>ingredientes_faltantes\<close> and \<open>eliminar_receta\<close>.
\<close>

definition union_ingredientes :: "(string, Receta) dict \<Rightarrow> string list" where
  "union_ingredientes rs =
     foldl (\<lambda>acc r. set_union acc (ingredientes r)) [] (valores rs)"

definition ingredientes_faltantes :: "GestorRecetas \<Rightarrow> string list" where
  "ingredientes_faltantes g =
     set_diff (union_ingredientes (recetas g))
       (set_de_lista (map ItemCompra.nombre (valores (lista_compras g))))"

text \<open>
  \<open>agregar_receta\<close>: store the recipe under its name, then walk its ingredients and
  insert a fresh item for each one that is not yet a key of the shopping list.
\<close>

definition agregar_ingrediente ::
  "(string, ItemCompra) dict \<Rightarrow> string \<Rightarrow> (string, ItemCompra) dict" where
  "agregar_ingrediente l ingrediente =
     (if ingrediente \<notin> set (claves l)
      then dict_set l ingrediente (ItemCompra_nuevo ingrediente)
      else l)"

definition agregar_receta :: "GestorRecetas \<Rightarrow> Receta \<Rightarrow> GestorRecetas" where
  "agregar_receta g receta =
     \<lparr>recetas = dict_set (recetas g) (Receta.nombre receta) receta,
      lista_compras = foldl agregar_ingrediente (lista_compras g) (ingredientes receta)\<rparr>"

text \<open>
  \<open>eliminar_receta\<close>: \<open>False\<close> and no change when the name is not stored; otherwise the
  recipe is deleted, the union of the remaining ingredients is computed, and the loop
  over a snapshot of the shopping list's keys deletes each key outside that union.
\<close>

definition quitar_si_sobra ::
  "string list \<Rightarrow> (string, ItemCompra) dict \<Rightarrow> string \<Rightarrow> (string, ItemCompra) dict" where
  "quitar_si_sobra ingredientes_restantes l ingrediente =
     (if ingrediente \<notin> set ingredientes_restantes then dict_del l ingrediente else l)"

definition eliminar_receta :: "GestorRecetas \<Rightarrow> string \<Rightarrow> bool \<times> GestorRecetas" where
  "eliminar_receta g n =
     (if n \<notin> set (claves (recetas g)) then (False, g)
      else
        let recetas' = dict_del (recetas g) n;
            ingredientes_restantes = union_ingredientes recetas'
        in (True,
            \<lparr>recetas = recetas',
             lista_compras =
               foldl (quitar_si_sobra ingredientes_restantes) (lista_compras g)
                 (claves (lista_compras g))\<rparr>))"

section \<open>Exceptions\<close>

text \<open>The Python exceptions that the modelled code can raise.\<close>

datatype py_error =
  KeyError | IndexError | TypeError | ValueError | AttributeError | OSError | OverflowError

section \<open>Preparing a recipe\<close>

text \<open>
  \<open>preparar_receta\<close> is a coroutine that prints and sleeps. Its observable behaviour is
  the sequence of those effects, one constructor per call site of the source:
  \<open>_mostrar_error\<close> (line 62), \<open>_mostrar_titulo\<close> (line 66), the two \<open>print\<close>s
  (lines 67 and 70), a completed \<open>asyncio.sleep\<close> (line 73, with its argument) and
  \<open>_mostrar_exito\<close> (line 75).
\<close>

datatype salida =
    Error_no_encontrada
  | Titulo_preparando string
  | Ingredientes_necesarios "string list"
  | Paso nat nat string
  | Sleep int
  | Exito_listo string int

text \<open>
  \<open>asyncio.sleep(delay)\<close> with an integer delay. For a positive delay the event loop
  computes \<open>self.time() + delay\<close>, which converts the integer to a double, rounding to
  nearest and ties to even; Python raises \<open>OverflowError\<close> when the rounded value
  exceeds the largest double \<open>2 ^ 1024 - 2 ^ 971\<close>, that is from \<open>2 ^ 1024 - 2 ^ 970\<close>
  on. A delay that is zero or negative is never converted. A delay that converts is a
  pause of that length.
\<close>

definition cabe_en_float :: "int \<Rightarrow> bool" where
  "cabe_en_float n \<longleftrightarrow> n < 2 ^ 1024 - 2 ^ 970"

definition asyncio_sleep :: "int \<Rightarrow> py_error + salida" where
  "asyncio_sleep delay =
     (if delay \<le> 0 \<or> cabe_en_float delay then Inr (Sleep delay) else Inl OverflowError)"

text \<open>
  The body of the \<open>for\<close> loop over \<open>enumerate(receta.pasos, 1)\<close>: the step is printed,
  then the pause is computed, from the length of the whole step list, and awaited;
  \<open>//\<close> on Python integers is floor division, as \<open>div\<close> on \<^typ>\<open>int\<close> is. With no
  steps the body never runs, so the division by the length is never reached with a zero
  divisor. The result is what was printed and slept, and the exception that ended the
  loop, if any.
\<close>

fun bucle_pasos :: "Receta \<Rightarrow> nat \<Rightarrow> string list \<Rightarrow> salida list \<times> py_error option" where
  "bucle_pasos receta i [] = ([], None)"
| "bucle_pasos receta i (paso # resto) =
     (case asyncio_sleep (max 1 (tiempo_preparacion receta div int (length (pasos receta)))) of
        Inl e \<Rightarrow> ([Paso i (length (pasos receta)) paso], Some e)
      | Inr pausa \<Rightarrow>
          (case bucle_pasos receta (Suc i) resto of
             (ss, e) \<Rightarrow> (Paso i (length (pasos receta)) paso # pausa # ss, e)))"

text \<open>
  \<open>preparar_receta\<close> has no \<open>try\<close>: an exception of the loop leaves the coroutine
  (\<open>Inl\<close>) before the closing message, and none of its callers catches
  \<open>OverflowError\<close>. Otherwise the result is the Boolean returned.
\<close>

definition preparar_receta ::
  "GestorRecetas \<Rightarrow> string \<Rightarrow> (py_error + bool) \<times> salida list \<times> GestorRecetas" where
  "preparar_receta g n =
     (case map_of (recetas g) n of
        None \<Rightarrow> (Inr False, [Error_no_encontrada], g)
      | Some receta \<Rightarrow>
          (case bucle_pasos receta 1 (pasos receta) of
             (ss, Some e) \<Rightarrow>
               (Inl e,
                [Titulo_preparando (Receta.nombre receta),
                 Ingredientes_necesarios (ingredientes receta)] @ ss,
                g)
           | (ss, None) \<Rightarrow>
               (Inr True,
                [Titulo_preparando (Receta.nombre receta),
                 Ingredientes_necesarios (ingredientes receta)]
                @ ss
                @ [Exito_listo (Receta.nombre receta) (tiempo_preparacion receta)],
                g)))"

text \<open>The arguments of the \<open>asyncio.sleep\<close> calls of a run, in order.\<close>

fun pausas :: "salida list \<Rightarrow> int list" where
  "pausas [] = []"
| "pausas (Sleep t # ss) = t # pausas ss"
| "pausas (_ # ss) = pausas ss"

text \<open>The steps a run announced, in order.\<close>

fun pasos_mostrados :: "salida list \<Rightarrow> string list" where
  "pasos_mostrados [] = []"
| "pasos_mostrados (Paso _ _ p # ss) = p # pasos_mostrados ss"
| "pasos_mostrados (_ # ss) = pasos_mostrados ss"

section \<open>Managing the shopping list from the menu\<close>

text \<open>
  \<open>xs[i]\<close> on a list of length \<open>n\<close>: a negative index counts from the end, and an index
  outside \<open>-n \<dots> n - 1\<close> raises \<open>IndexError\<close> (\<open>None\<close> here).
\<close>

definition indice_py :: "nat \<Rightarrow> int \<Rightarrow> nat option" where
  "indice_py n i =
     (let j = (if i < 0 then int n + i else i)
      in if 0 \<le> j \<and> j < int n then Some (nat j) else None)"

text \<open>
  The two branches of \<open>gestionar_lista_compras\<close> that change the manager, for the number
  \<open>num\<close> the user gave (already decremented, line 358). The item is
  \<open>list(gestor.lista_compras.values())[num]\<close>; an \<open>IndexError\<close> is caught by the
  function (line 370) and leaves the manager as it was. Option 1 assigns the item's
  \<open>estado\<close>; option 2 runs \<open>del gestor.lista_compras[item.nombre]\<close>, whose \<open>KeyError\<close>
  is not among the caught exceptions.
\<close>

definition gestionar_marcar_comprado :: "GestorRecetas \<Rightarrow> int \<Rightarrow> GestorRecetas" where
  "gestionar_marcar_comprado g num =
     (case indice_py (length (lista_compras g)) num of
        None \<Rightarrow> g
      | Some p \<Rightarrow>
          (case lista_compras g ! p of
             (k, item) \<Rightarrow>
               g\<lparr>lista_compras := (lista_compras g)[p := (k, item\<lparr>estado := COMPRADO\<rparr>)]\<rparr>))"

definition gestionar_eliminar_item :: "GestorRecetas \<Rightarrow> int \<Rightarrow> py_error + GestorRecetas" where
  "gestionar_eliminar_item g num =
     (case indice_py (length (lista_compras g)) num of
        None \<Rightarrow> Inr g
      | Some p \<Rightarrow>
          (case lista_compras g ! p of
             (k, item) \<Rightarrow>
               if ItemCompra.nombre item \<in> set (claves (lista_compras g))
               then Inr (g\<lparr>lista_compras :=
                            dict_del (lista_compras g) (ItemCompra.nombre item)\<rparr>)
               else Inl KeyError))"

subsection \<open>Sequences of operations\<close>

text \<open>
  The four ways the program changes the manager after start-up, and the run of a
  sequence of them. An uncaught exception ends the run.
\<close>

datatype operacion =
    Agregar Receta
  | Eliminar string
  | MarcarComprado int
  | EliminarItem int

fun aplicar :: "GestorRecetas \<Rightarrow> operacion \<Rightarrow> py_error + GestorRecetas" where
  "aplicar g (Agregar r) = Inr (agregar_receta g r)"
| "aplicar g (Eliminar n) = Inr (snd (eliminar_receta g n))"
| "aplicar g (MarcarComprado num) = Inr (gestionar_marcar_comprado g num)"
| "aplicar g (EliminarItem num) = gestionar_eliminar_item g num"

fun ejecutar :: "GestorRecetas \<Rightarrow> operacion list \<Rightarrow> py_error + GestorRecetas" where
  "ejecutar g [] = Inr g"
| "ejecutar g (op # ops) =
     (case aplicar g op of Inl e \<Rightarrow> Inl e | Inr g' \<Rightarrow> ejecutar g' ops)"

text \<open>Sequences made of recipe additions and removals only.\<close>

fun es_sobre_recetas :: "operacion \<Rightarrow> bool" where
  "es_sobre_recetas (Agregar _) = True"
| "es_sobre_recetas (Eliminar _) = True"
| "es_sobre_recetas _ = False"

text \<open>
  Sequences without a manual removal of a shopping item in which every added recipe has
  a name that is not stored at that moment.
\<close>

fun sin_reemplazo_ni_borrado :: "GestorRecetas \<Rightarrow> operacion list \<Rightarrow> bool" where
  "sin_reemplazo_ni_borrado g [] = True"
| "sin_reemplazo_ni_borrado g (Agregar r # ops) =
     (Receta.nombre r \<notin> set (claves (recetas g))
      \<and> sin_reemplazo_ni_borrado (agregar_receta g r) ops)"
| "sin_reemplazo_ni_borrado g (Eliminar n # ops) =
     sin_reemplazo_ni_borrado (snd (eliminar_receta g n)) ops"
| "sin_reemplazo_ni_borrado g (MarcarComprado num # ops) =
     sin_reemplazo_ni_borrado (gestionar_marcar_comprado g num) ops"
| "sin_reemplazo_ni_borrado g (EliminarItem num # ops) = False"

text \<open>The union of the ingredient sets of the stored recipes, as a set.\<close>

definition ingredientes_de_recetas :: "GestorRecetas \<Rightarrow> string set" where
  "ingredientes_de_recetas g = (\<Union>r\<in>set (valores (recetas g)). set (ingredientes r))"

section \<open>Persistence\<close>

text \<open>
  The Python value that \<open>json.load\<close> returns and \<open>json.dump\<close> accepts: \<open>None\<close>,
  \<open>bool\<close>, \<open>int\<close>, \<open>str\<close>, \<open>list\<close> and \<open>dict\<close> with string keys. The text of the
  file and the \<open>json\<close> module are not modelled: a file is absent, or unreadable (opening
  or parsing it raises), or holds such a value, and \<open>json.load\<close> returns the value that
  \<open>json.dump\<close> wrote. JSON numbers with a fraction are outside the model.
\<close>

datatype json =
    JNull
  | JBool bool
  | JInt int
  | JStr string
  | JList "json list"
  | JObj "(string \<times> json) list"

datatype archivo = Ausente | Ilegible py_error | Contenido json

subsection \<open>Saving\<close>

fun valor_categoria :: "CategoriaReceta \<Rightarrow> string" where
  "valor_categoria DESAYUNO = ''Desayuno''"
| "valor_categoria ALMUERZO = ''Almuerzo''"
| "valor_categoria CENA = ''Cena''"
| "valor_categoria POSTRE = ''Postre''"

fun nombre_estado :: "EstadoCompra \<Rightarrow> string" where
  "nombre_estado PENDIENTE = ''PENDIENTE''"
| "nombre_estado COMPRADO = ''COMPRADO''"

definition receta_a_json :: "Receta \<Rightarrow> json" where
  "receta_a_json r =
     JObj [(''nombre'', JStr (Receta.nombre r)),
           (''categoria'', JStr (valor_categoria (categoria r))),
           (''ingredientes'', JList (map JStr (ingredientes r))),
           (''pasos'', JList (map JStr (pasos r))),
           (''tiempo_preparacion'', JInt (tiempo_preparacion r))]"

definition item_a_json :: "ItemCompra \<Rightarrow> json" where
  "item_a_json i =
     JObj [(''nombre'', JStr (ItemCompra.nombre i)),
           (''estado'', JStr (nombre_estado (estado i)))]"

text \<open>
  \<open>guardar_datos\<close> builds \<open>datos\<close> and rewrites the file with it; the result is the new
  file. The dictionary comprehension over \<open>self.recetas.items()\<close> stores each entry
  under its key, in order.
\<close>

definition guardar_datos :: "GestorRecetas \<Rightarrow> archivo" where
  "guardar_datos g =
     Contenido
       (JObj [(''recetas'',
                 JObj (foldl (\<lambda>d (n, r). dict_set d n (receta_a_json r)) [] (recetas g))),
              (''lista_compras'',
                 JList (map item_a_json (valores (lista_compras g))))])"

subsection \<open>Loading\<close>

text \<open>
  The operations \<open>cargar_datos\<close> applies to the loaded value, each with the exception
  Python raises when the value has the wrong shape: \<open>x[k]\<close>, \<open>x.get(k, default)\<close>,
  \<open>x.items()\<close> and iteration.
\<close>

fun subscript :: "json \<Rightarrow> string \<Rightarrow> py_error + json" where
  "subscript (JObj kvs) k = (case map_of kvs k of None \<Rightarrow> Inl KeyError | Some v \<Rightarrow> Inr v)"
| "subscript _ k = Inl TypeError"

fun get_o :: "json \<Rightarrow> string \<Rightarrow> json \<Rightarrow> py_error + json" where
  "get_o (JObj kvs) k d = Inr (case map_of kvs k of None \<Rightarrow> d | Some v \<Rightarrow> v)"
| "get_o _ k d = Inl AttributeError"

fun items_o :: "json \<Rightarrow> py_error + (string \<times> json) list" where
  "items_o (JObj kvs) = Inr kvs"
| "items_o _ = Inl AttributeError"

fun iterar :: "json \<Rightarrow> py_error + json list" where
  "iterar (JList xs) = Inr xs"
| "iterar (JObj kvs) = Inr (map (\<lambda>kv. JStr (fst kv)) kvs)"
| "iterar (JStr s) = Inr (map (\<lambda>c. JStr [c]) s)"
| "iterar _ = Inl TypeError"

fun hashable :: "json \<Rightarrow> bool" where
  "hashable (JList _) = False"
| "hashable (JObj _) = False"
| "hashable _ = True"

text \<open>\<open>CategoriaReceta(v)\<close> looks a member up by value, \<open>EstadoCompra[v]\<close> by name.\<close>

fun CategoriaReceta_de_valor :: "json \<Rightarrow> py_error + CategoriaReceta" where
  "CategoriaReceta_de_valor (JStr s) =
     (if s = ''Desayuno'' then Inr DESAYUNO
      else if s = ''Almuerzo'' then Inr ALMUERZO
      else if s = ''Cena'' then Inr CENA
      else if s = ''Postre'' then Inr POSTRE
      else Inl ValueError)"
| "CategoriaReceta_de_valor _ = Inl ValueError"

fun EstadoCompra_de_nombre :: "json \<Rightarrow> py_error + EstadoCompra" where
  "EstadoCompra_de_nombre (JStr s) =
     (if s = ''PENDIENTE'' then Inr PENDIENTE
      else if s = ''COMPRADO'' then Inr COMPRADO
      else Inl KeyError)"
| "EstadoCompra_de_nombre v = (if hashable v then Inl KeyError else Inl TypeError)"

text \<open>
  The source stores what it reads without checking its type, so a file can put into a
  field a value that the dataclass annotations exclude (a number as a step list, say).
  The records of this theory follow the annotations; such a load raises nothing, and its
  result is \<open>None\<close> here: the state it leaves is outside the model. A value read this
  way is \<open>py_error + 'a option\<close>: \<open>Inl\<close> an exception, \<open>Inr None\<close> a value of another
  type stored as it is, \<open>Inr (Some v)\<close> a value of the annotated type. An exception
  raised later in the same statement still wins over \<open>Inr None\<close>.
\<close>

fun como_str :: "json \<Rightarrow> string option" where
  "como_str (JStr s) = Some s"
| "como_str _ = None"

fun como_int :: "json \<Rightarrow> int option" where
  "como_int (JInt n) = Some n"
| "como_int _ = None"

fun como_lista_str :: "json \<Rightarrow> string list option" where
  "como_lista_str (JList xs) = those (map como_str xs)"
| "como_lista_str _ = None"

text \<open>
  \<open>set(v)\<close>: the elements of a list (all of them hashable, or \<open>TypeError\<close>), the keys of
  a dictionary, the characters of a string.
\<close>

fun set_de_json :: "json \<Rightarrow> py_error + string list option" where
  "set_de_json (JList xs) =
     (if \<exists>x\<in>set xs. \<not> hashable x then Inl TypeError
      else Inr (map_option set_de_lista (those (map como_str xs))))"
| "set_de_json (JObj kvs) = Inr (Some (set_de_lista (map fst kvs)))"
| "set_de_json (JStr s) = Inr (Some (set_de_lista (map (\<lambda>c. [c]) s)))"
| "set_de_json _ = Inl TypeError"

text \<open>
  The \<open>Receta(...)\<close> call of the first comprehension; the arguments are evaluated in the
  order written.
\<close>

definition leer_receta :: "string \<Rightarrow> json \<Rightarrow> py_error + Receta option" where
  "leer_receta n datos_r =
     (case subscript datos_r ''categoria'' of Inl e \<Rightarrow> Inl e | Inr c \<Rightarrow>
     (case CategoriaReceta_de_valor c of Inl e \<Rightarrow> Inl e | Inr cat \<Rightarrow>
     (case subscript datos_r ''ingredientes'' of Inl e \<Rightarrow> Inl e | Inr i \<Rightarrow>
     (case set_de_json i of Inl e \<Rightarrow> Inl e | Inr ings \<Rightarrow>
     (case subscript datos_r ''pasos'' of Inl e \<Rightarrow> Inl e | Inr p \<Rightarrow>
     (case subscript datos_r ''tiempo_preparacion'' of Inl e \<Rightarrow> Inl e | Inr t \<Rightarrow>
        Inr (case (ings, como_lista_str p, como_int t) of
               (Some ings', Some pasos', Some t') \<Rightarrow>
                 Some \<lparr>Receta.nombre = n, categoria = cat, ingredientes = ings',
                       pasos = pasos', tiempo_preparacion = t'\<rparr>
             | _ \<Rightarrow> None)))))))"

fun construir_recetas ::
  "(string, Receta) dict option \<Rightarrow> (string \<times> json) list
     \<Rightarrow> py_error + (string, Receta) dict option" where
  "construir_recetas acc [] = Inr acc"
| "construir_recetas acc ((n, datos_r) # resto) =
     (case leer_receta n datos_r of
        Inl e \<Rightarrow> Inl e
      | Inr r \<Rightarrow>
          construir_recetas
            (case (acc, r) of (Some d, Some r') \<Rightarrow> Some (dict_set d n r') | _ \<Rightarrow> None)
            resto)"

definition cargar_recetas :: "json \<Rightarrow> py_error + (string, Receta) dict option" where
  "cargar_recetas datos =
     (case get_o datos ''recetas'' (JObj []) of Inl e \<Rightarrow> Inl e | Inr v \<Rightarrow>
     (case items_o v of Inl e \<Rightarrow> Inl e | Inr kvs \<Rightarrow>
        construir_recetas (Some []) kvs))"

text \<open>
  One entry of the second comprehension: the key \<open>item["nombre"]\<close>, the \<open>ItemCompra(...)\<close>
  call, and the insertion, which hashes the key.
\<close>

definition leer_item :: "json \<Rightarrow> py_error + (string \<times> ItemCompra) option" where
  "leer_item item =
     (case subscript item ''nombre'' of Inl e \<Rightarrow> Inl e | Inr n \<Rightarrow>
     (case subscript item ''estado'' of Inl e \<Rightarrow> Inl e | Inr s \<Rightarrow>
     (case EstadoCompra_de_nombre s of Inl e \<Rightarrow> Inl e | Inr est \<Rightarrow>
        (if \<not> hashable n then Inl TypeError
         else Inr (case como_str n of
                     None \<Rightarrow> None
                   | Some n' \<Rightarrow> Some (n', \<lparr>ItemCompra.nombre = n', estado = est\<rparr>))))))"

fun construir_lista ::
  "(string, ItemCompra) dict option \<Rightarrow> json list
     \<Rightarrow> py_error + (string, ItemCompra) dict option" where
  "construir_lista acc [] = Inr acc"
| "construir_lista acc (item # resto) =
     (case leer_item item of
        Inl e \<Rightarrow> Inl e
      | Inr kv \<Rightarrow>
          construir_lista
            (case (acc, kv) of (Some d, Some (k, v)) \<Rightarrow> Some (dict_set d k v) | _ \<Rightarrow> None)
            resto)"

definition cargar_lista :: "json \<Rightarrow> py_error + (string, ItemCompra) dict option" where
  "cargar_lista datos =
     (case get_o datos ''lista_compras'' (JList []) of Inl e \<Rightarrow> Inl e | Inr v \<Rightarrow>
     (case iterar v of Inl e \<Rightarrow> Inl e | Inr xs \<Rightarrow>
        construir_lista (Some []) xs))"

text \<open>
  \<open>cargar_datos\<close>: nothing happens when the file does not exist. Otherwise the \<open>try\<close>
  block reads the file, assigns \<open>self.recetas\<close>, then assigns \<open>self.lista_compras\<close>;
  \<open>except Exception\<close> reports the exception and returns, with whatever had been
  assigned by then. The result is the manager and the exception reported, if any.
\<close>

definition cargar_datos ::
  "GestorRecetas \<Rightarrow> archivo \<Rightarrow> (GestorRecetas \<times> py_error option) option" where
  "cargar_datos g f =
     (case f of
        Ausente \<Rightarrow> Some (g, None)
      | Ilegible e \<Rightarrow> Some (g, Some e)
      | Contenido datos \<Rightarrow>
          (case cargar_recetas datos of
             Inl e \<Rightarrow> Some (g, Some e)
           | Inr None \<Rightarrow> None
           | Inr (Some rs) \<Rightarrow>
               (case cargar_lista datos of
                  Inl e \<Rightarrow> Some (g\<lparr>recetas := rs\<rparr>, Some e)
                | Inr None \<Rightarrow> None
                | Inr (Some l) \<Rightarrow> Some (g\<lparr>recetas := rs, lista_compras := l\<rparr>, None))))"

text \<open>
  A manager whose dictionaries are Python dictionaries of the data model: keys are
  unique, every recipe is stored under its own name and every item under its own name.
\<close>

definition bien_formado :: "GestorRecetas \<Rightarrow> bool" where
  "bien_formado g \<longleftrightarrow>
     distinct (claves (recetas g))
     \<and> (\<forall>kv\<in>set (recetas g). Receta.nombre (snd kv) = fst kv)
     \<and> distinct (claves (lista_compras g))
     \<and> (\<forall>kv\<in>set (lista_compras g). ItemCompra.nombre (snd kv) = fst kv)"

text \<open>
  Equality of recipes and of managers as Python's \<open>==\<close> on the dataclasses sees it, where
  the ingredient set has no order. The dictionaries are compared entry by entry, in
  order.
\<close>

definition misma_receta :: "Receta \<Rightarrow> Receta \<Rightarrow> bool" where
  "misma_receta r r' \<longleftrightarrow>
     Receta.nombre r = Receta.nombre r' \<and> categoria r = categoria r'
     \<and> set (ingredientes r) = set (ingredientes r')
     \<and> pasos r = pasos r' \<and> tiempo_preparacion r = tiempo_preparacion r'"

definition mismo_estado :: "GestorRecetas \<Rightarrow> GestorRecetas \<Rightarrow> bool" where
  "mismo_estado g g' \<longleftrightarrow>
     list_all2 (\<lambda>kv kv'. fst kv = fst kv' \<and> misma_receta (snd kv) (snd kv'))
       (recetas g) (recetas g')
     \<and> lista_compras g = lista_compras g'"

section \<open>Example data\<close>

definition receta_tortilla :: Receta where
  "receta_tortilla =
     \<lparr>Receta.nombre = ''Tortilla'', categoria = CENA, ingredientes = [''huevo'', ''papa''],
      pasos = [''batir'', ''freir''], tiempo_preparacion = 20\<rparr>"

definition receta_flan :: Receta where
  "receta_flan =
     \<lparr>Receta.nombre = ''Flan'', categoria = POSTRE, ingredientes = [''huevo'', ''leche''],
      pasos = [''mezclar'', ''hornear'', ''enfriar''], tiempo_preparacion = 10\<rparr>"


text \<open>Both recipes added to a new manager, and then the first item marked as bought.\<close>

definition gestor_dos_recetas :: GestorRecetas where
  "gestor_dos_recetas =
     agregar_receta (agregar_receta GestorRecetas_init receta_tortilla) receta_flan"

definition gestor_huevo_comprado :: GestorRecetas where
  "gestor_huevo_comprado = gestionar_marcar_comprado gestor_dos_recetas 0"

definition gestor_solo_flan :: GestorRecetas where
  "gestor_solo_flan = snd (eliminar_receta gestor_dos_recetas ''Tortilla'')"

text \<open>A second recipe under the name of the first, with a single ingredient.\<close>

definition receta_tortilla_francesa :: Receta where
  "receta_tortilla_francesa =
     \<lparr>Receta.nombre = ''Tortilla'', categoria = DESAYUNO, ingredientes = [''huevo''],
      pasos = [''batir'', ''cuajar''], tiempo_preparacion = 5\<rparr>"

definition gestor_tortilla :: GestorRecetas where
  "gestor_tortilla = agregar_receta GestorRecetas_init receta_tortilla"

definition gestor_sin_flan :: GestorRecetas where
  "gestor_sin_flan = snd (eliminar_receta gestor_huevo_comprado ''Flan'')"

text \<open>
  Two files. The first holds one recipe whose category is not one of the four values.
  The second holds a valid recipe and a shopping item whose state is not the name of a
  member of \<open>EstadoCompra\<close>.
\<close>

definition datos_categoria_mala :: json where
  "datos_categoria_mala =
     JObj [(''recetas'',
              JObj [(''Flan'',
                       JObj [(''nombre'', JStr ''Flan''), (''categoria'', JStr ''Merienda''),
                             (''ingredientes'', JList [JStr ''huevo'', JStr ''leche'']),
                             (''pasos'', JList [JStr ''mezclar'']),
                             (''tiempo_preparacion'', JInt 10)])]),
           (''lista_compras'', JList [])]"

definition datos_estado_malo :: json where
  "datos_estado_malo =
     JObj [(''recetas'', JObj [(''Flan'', receta_a_json receta_flan)]),
           (''lista_compras'',
              JList [JObj [(''nombre'', JStr ''huevo''), (''estado'', JStr ''AGOTADO'')]])]"


section \<open>Dictionary and set lemmas\<close>

lemma set_set_union: "set (set_union a b) = set a \<union> set b"
  by (auto simp: set_union_def)

lemma set_set_diff: "set (set_diff a b) = set a - set b"
  by (auto simp: set_diff_def)

lemma claves_dict_set_lista:
  "claves (dict_set d k v) = (if k \<in> set (claves d) then claves d else claves d @ [k])"
  by (induction d) (force simp: claves_def)+

lemma claves_dict_set:
  "set (claves (dict_set d k v)) = insert k (set (claves d))"
  by (auto simp: claves_dict_set_lista)

lemma map_of_dict_set: "map_of (dict_set d k v) = (map_of d)(k \<mapsto> v)"
  by (induction d) (auto simp: fun_eq_iff)

lemma dict_set_nueva: "k \<notin> set (claves d) \<Longrightarrow> dict_set d k v = d @ [(k, v)]"
  by (induction d) (auto simp: claves_def)

lemma claves_dict_del: "set (claves (dict_del d k)) = set (claves d) - {k}"
  by (auto simp: claves_def dict_del_def)


lemma map_of_filter_clave:
  "P k \<Longrightarrow> map_of (filter (\<lambda>kv. P (fst kv)) l) k = map_of l k"
  by (induction l) auto

lemma map_of_clave:
  "k \<in> set (claves l) \<Longrightarrow> \<exists>v. map_of l k = Some v"
  by (induction l) (auto simp: claves_def)

lemma map_of_no_clave:
  "k \<notin> set (claves l) \<Longrightarrow> map_of l k = None"
  by (induction l) (auto simp: claves_def)

lemma map_of_append_izq:
  "k \<in> set (claves l) \<Longrightarrow> map_of (l @ ys) k = map_of l k"
  using map_of_clave [of k l] by (auto simp: map_add_def)

lemma map_of_append_der:
  "k \<notin> set (claves l) \<Longrightarrow> map_of (l @ ys) k = map_of ys k"
  using map_of_no_clave [of k l] by (simp add: map_add_def)

lemma set_union_ingredientes_acc:
  "set (foldl (\<lambda>acc r. set_union acc (ingredientes r)) a rs)
     = set a \<union> (\<Union>r\<in>set rs. set (ingredientes r))"
  by (induction rs arbitrary: a) (auto simp: set_set_union)

lemma set_union_ingredientes:
  "set (union_ingredientes d) = (\<Union>r\<in>set (valores d). set (ingredientes r))"
  by (simp add: union_ingredientes_def set_union_ingredientes_acc)

subsection \<open>The loop of \<open>agregar_receta\<close>\<close>

lemma foldl_agregar_ingrediente:
  "\<exists>ys. foldl agregar_ingrediente l xs = l @ ys
        \<and> set (claves ys) = set xs - set (claves l)
        \<and> (\<forall>kv\<in>set ys. snd kv = ItemCompra_nuevo (fst kv))"
proof (induction xs arbitrary: l)
  case Nil
  show ?case by (simp add: claves_def)
next
  case (Cons x xs)
  show ?case
  proof (cases "x \<in> set (claves l)")
    case True
    from Cons.IH [of l] obtain ys where
      "foldl agregar_ingrediente l xs = l @ ys"
      "set (claves ys) = set xs - set (claves l)"
      "\<forall>kv\<in>set ys. snd kv = ItemCompra_nuevo (fst kv)"
      by blast
    moreover have "agregar_ingrediente l x = l"
      using True by (simp add: agregar_ingrediente_def)
    ultimately show ?thesis
      using True by auto
  next
    case False
    let ?l' = "l @ [(x, ItemCompra_nuevo x)]"
    from Cons.IH [of ?l'] obtain ys where ys:
      "foldl agregar_ingrediente ?l' xs = ?l' @ ys"
      "set (claves ys) = set xs - set (claves ?l')"
      "\<forall>kv\<in>set ys. snd kv = ItemCompra_nuevo (fst kv)"
      by blast
    have paso: "agregar_ingrediente l x = ?l'"
      using False by (simp add: agregar_ingrediente_def dict_set_nueva)
    have "foldl agregar_ingrediente l (x # xs) = l @ ((x, ItemCompra_nuevo x) # ys)"
      using ys(1) paso by simp
    moreover have "set (claves ((x, ItemCompra_nuevo x) # ys)) = set (x # xs) - set (claves l)"
      using ys(2) False by (auto simp: claves_def)
    moreover have "\<forall>kv\<in>set ((x, ItemCompra_nuevo x) # ys). snd kv = ItemCompra_nuevo (fst kv)"
      using ys(3) by simp
    ultimately show ?thesis by blast
  qed
qed

lemma agregar_receta_efecto:
  fixes g :: GestorRecetas and r :: Receta
  defines "l \<equiv> lista_compras g" and "l' \<equiv> lista_compras (agregar_receta g r)"
  shows "set (claves l') = set (claves l) \<union> set (ingredientes r)"
    and "i \<in> set (ingredientes r) \<Longrightarrow> i \<notin> set (claves l) \<Longrightarrow>
           map_of l' i = Some \<lparr>ItemCompra.nombre = i, estado = PENDIENTE\<rparr>"
    and "k \<in> set (claves l) \<Longrightarrow> map_of l' k = map_of l k"
    and "take (length l) l' = l"
proof -
  obtain ys where ys:
    "l' = l @ ys" "set (claves ys) = set (ingredientes r) - set (claves l)"
    "\<forall>kv\<in>set ys. snd kv = ItemCompra_nuevo (fst kv)"
    using foldl_agregar_ingrediente [of "lista_compras g" "ingredientes r"]
    by (auto simp: l_def l'_def agregar_receta_def)
  show "set (claves l') = set (claves l) \<union> set (ingredientes r)"
    using ys(1,2) by (auto simp: claves_def)
  show "take (length l) l' = l"
    using ys(1) by simp
  show "map_of l' k = map_of l k" if "k \<in> set (claves l)"
    using that by (simp only: ys(1) map_of_append_izq)
  show "map_of l' i = Some \<lparr>ItemCompra.nombre = i, estado = PENDIENTE\<rparr>"
    if "i \<in> set (ingredientes r)" "i \<notin> set (claves l)"
  proof -
    from that ys(2) have "i \<in> set (claves ys)" by simp
    then obtain v where v: "map_of ys i = Some v"
      using map_of_clave by fastforce
    then have "(i, v) \<in> set ys" by (rule map_of_SomeD)
    with ys(3) have "v = ItemCompra_nuevo i" by force
    moreover have "map_of (l @ ys) i = map_of ys i"
      using that(2) by (rule map_of_append_der)
    ultimately show ?thesis
      using v ys(1) by (simp add: ItemCompra_nuevo_def del: map_of_append)
  qed
qed

subsection \<open>The loop of \<open>eliminar_receta\<close>\<close>

lemma foldl_quitar_si_sobra:
  "foldl (quitar_si_sobra R) l ks
     = filter (\<lambda>kv. fst kv \<in> set R \<or> fst kv \<notin> set ks) l"
proof (induction ks arbitrary: l)
  case Nil
  show ?case by simp
next
  case (Cons k ks)
  have paso: "quitar_si_sobra R l k = filter (\<lambda>kv. fst kv \<in> set R \<or> fst kv \<noteq> k) l"
  proof (cases "k \<in> set R")
    case True
    then have "filter (\<lambda>kv. fst kv \<in> set R \<or> fst kv \<noteq> k) l = l"
      by (intro filter_True) auto
    with True show ?thesis by (simp add: quitar_si_sobra_def)
  next
    case False
    then show ?thesis
      by (auto simp: quitar_si_sobra_def dict_del_def intro: filter_cong)
  qed
  have "foldl (quitar_si_sobra R) l (k # ks)
          = foldl (quitar_si_sobra R) (quitar_si_sobra R l k) ks"
    by simp
  also have "\<dots> = filter (\<lambda>kv. fst kv \<in> set R \<or> fst kv \<notin> set ks)
                      (filter (\<lambda>kv. fst kv \<in> set R \<or> fst kv \<noteq> k) l)"
    by (simp only: Cons.IH paso)
  also have "\<dots> = filter (\<lambda>kv. fst kv \<in> set R \<or> fst kv \<notin> set (k # ks)) l"
    by (auto intro: filter_cong)
  finally show ?case .
qed

lemma eliminar_receta_lista:
  "n \<in> set (claves (recetas g)) \<Longrightarrow>
     lista_compras (snd (eliminar_receta g n))
       = filter (\<lambda>kv. fst kv \<in> set (union_ingredientes (dict_del (recetas g) n)))
           (lista_compras g)"
  by (auto simp: eliminar_receta_def Let_def foldl_quitar_si_sobra claves_def intro: filter_cong)

lemma eliminar_receta_recetas:
  "n \<in> set (claves (recetas g)) \<Longrightarrow>
     recetas (snd (eliminar_receta g n)) = dict_del (recetas g) n"
  by (simp add: eliminar_receta_def Let_def)


section \<open>Adding a recipe\<close>

text \<open>
  Claim C1. Whatever the manager \<open>g0\<close> and whatever recipes \<open>rs\<close> have been added to it
  before, adding a recipe \<open>r\<close> leaves every ingredient of \<open>r\<close> among the keys of the
  shopping list; an ingredient that was not a key before is now stored as an item of
  that name in state \<open>PENDIENTE\<close>; and the entries that were there before are the
  same, in the same positions, with the same item.
\<close>

theorem agregar_receta_lista_compras:
  "let g = foldl agregar_receta g0 rs; g' = agregar_receta g r in
     set (ingredientes r) \<subseteq> set (claves (lista_compras g'))
     \<and> (\<forall>i\<in>set (ingredientes r). i \<notin> set (claves (lista_compras g)) \<longrightarrow>
           map_of (lista_compras g') i = Some \<lparr>ItemCompra.nombre = i, estado = PENDIENTE\<rparr>)
     \<and> (\<forall>k\<in>set (claves (lista_compras g)).
           map_of (lista_compras g') k = map_of (lista_compras g) k)
     \<and> take (length (lista_compras g)) (lista_compras g') = lista_compras g"
  unfolding Let_def
  using agregar_receta_efecto [where g = "foldl agregar_receta g0 rs" and r = r]
  by blast

theorem agregar_receta_lista_compras_witness:
  "''leche'' \<in> set (ingredientes receta_flan)
   \<and> ''leche'' \<notin> set (claves (lista_compras (foldl agregar_receta GestorRecetas_init [receta_tortilla])))
   \<and> ''huevo'' \<in> set (claves (lista_compras (foldl agregar_receta GestorRecetas_init [receta_tortilla])))
   \<and> map_of (lista_compras (agregar_receta (foldl agregar_receta GestorRecetas_init [receta_tortilla]) receta_flan)) ''leche''
       = Some \<lparr>ItemCompra.nombre = ''leche'', estado = PENDIENTE\<rparr>
   \<and> map_of (lista_compras (agregar_receta (foldl agregar_receta GestorRecetas_init [receta_tortilla]) receta_flan)) ''huevo''
       = map_of (lista_compras (foldl agregar_receta GestorRecetas_init [receta_tortilla])) ''huevo''"
  using agregar_receta_lista_compras [of GestorRecetas_init "[receta_tortilla]" receta_flan]
  by (simp add: Let_def receta_flan_def receta_tortilla_def GestorRecetas_init_def
      agregar_receta_def agregar_ingrediente_def claves_def ItemCompra_nuevo_def)


lemma gestor_dos_recetas_valor:
  "gestor_dos_recetas =
     \<lparr>recetas = [(''Tortilla'', receta_tortilla), (''Flan'', receta_flan)],
      lista_compras =
        [(''huevo'', \<lparr>ItemCompra.nombre = ''huevo'', estado = PENDIENTE\<rparr>),
         (''papa'', \<lparr>ItemCompra.nombre = ''papa'', estado = PENDIENTE\<rparr>),
         (''leche'', \<lparr>ItemCompra.nombre = ''leche'', estado = PENDIENTE\<rparr>)]\<rparr>"
  by (simp add: gestor_dos_recetas_def agregar_receta_def agregar_ingrediente_def
      GestorRecetas_init_def claves_def ItemCompra_nuevo_def receta_tortilla_def receta_flan_def)

lemma gestor_huevo_comprado_valor:
  "gestor_huevo_comprado =
     \<lparr>recetas = [(''Tortilla'', receta_tortilla), (''Flan'', receta_flan)],
      lista_compras =
        [(''huevo'', \<lparr>ItemCompra.nombre = ''huevo'', estado = COMPRADO\<rparr>),
         (''papa'', \<lparr>ItemCompra.nombre = ''papa'', estado = PENDIENTE\<rparr>),
         (''leche'', \<lparr>ItemCompra.nombre = ''leche'', estado = PENDIENTE\<rparr>)]\<rparr>"
  by (simp add: gestor_huevo_comprado_def gestor_dos_recetas_valor
      gestionar_marcar_comprado_def indice_py_def)

section \<open>Removing a recipe\<close>

lemma map_of_dict_del: "k \<noteq> n \<Longrightarrow> map_of (dict_del d n) k = map_of d k"
  unfolding dict_del_def by (rule map_of_filter_clave [where P = "\<lambda>x. x \<noteq> n"])

lemma eliminar_receta_lista_set:
  assumes "n \<in> set (claves (recetas g))"
  shows "lista_compras (snd (eliminar_receta g n))
           = filter (\<lambda>kv. fst kv \<in> ingredientes_de_recetas (snd (eliminar_receta g n)))
               (lista_compras g)"
  using assms
  by (simp add: eliminar_receta_lista eliminar_receta_recetas ingredientes_de_recetas_def
      set_union_ingredientes)

text \<open>
  Claim C2. \<open>eliminar_receta g n\<close> returns \<open>False\<close> when \<open>n\<close> is not the name of a stored
  recipe. Otherwise it returns \<open>True\<close>, the recipe \<open>n\<close> is gone and the other recipes
  are as before, and the shopping list keeps, in order, exactly the entries whose key
  is an ingredient of some remaining recipe.
\<close>

theorem eliminar_receta_efecto:
  "(n \<notin> set (claves (recetas g)) \<longrightarrow> fst (eliminar_receta g n) = False)
   \<and> (n \<in> set (claves (recetas g)) \<longrightarrow>
        (let g' = snd (eliminar_receta g n) in
           fst (eliminar_receta g n) = True
           \<and> n \<notin> set (claves (recetas g'))
           \<and> recetas g' = filter (\<lambda>kv. fst kv \<noteq> n) (recetas g)
           \<and> lista_compras g'
               = filter (\<lambda>kv. fst kv \<in> ingredientes_de_recetas g') (lista_compras g)))"
proof (intro conjI impI)
  assume "n \<notin> set (claves (recetas g))"
  then show "fst (eliminar_receta g n) = False"
    by (simp add: eliminar_receta_def)
next
  assume n: "n \<in> set (claves (recetas g))"
  have "fst (eliminar_receta g n) = True"
    using n by (simp add: eliminar_receta_def Let_def)
  moreover have "n \<notin> set (claves (recetas (snd (eliminar_receta g n))))"
    using n by (simp add: eliminar_receta_recetas claves_dict_del)
  moreover have "recetas (snd (eliminar_receta g n)) = filter (\<lambda>kv. fst kv \<noteq> n) (recetas g)"
    using n by (simp add: eliminar_receta_recetas dict_del_def)
  ultimately show "let g' = snd (eliminar_receta g n) in
           fst (eliminar_receta g n) = True
           \<and> n \<notin> set (claves (recetas g'))
           \<and> recetas g' = filter (\<lambda>kv. fst kv \<noteq> n) (recetas g)
           \<and> lista_compras g'
               = filter (\<lambda>kv. fst kv \<in> ingredientes_de_recetas g') (lista_compras g)"
    using eliminar_receta_lista_set [OF n] by (simp add: Let_def)
qed

theorem eliminar_receta_efecto_witness:
  "''Pan'' \<notin> set (claves (recetas gestor_dos_recetas))
   \<and> fst (eliminar_receta gestor_dos_recetas ''Pan'') = False
   \<and> ''Flan'' \<in> set (claves (recetas gestor_dos_recetas))
   \<and> fst (eliminar_receta gestor_dos_recetas ''Flan'') = True
   \<and> claves (recetas (snd (eliminar_receta gestor_dos_recetas ''Flan''))) = [''Tortilla'']
   \<and> claves (lista_compras (snd (eliminar_receta gestor_dos_recetas ''Flan'')))
       = [''huevo'', ''papa'']"
proof -
  have rec: "recetas (snd (eliminar_receta gestor_dos_recetas ''Flan'')) = [(''Tortilla'', receta_tortilla)]"
    by (simp add: eliminar_receta_def gestor_dos_recetas_valor claves_def dict_del_def Let_def)
  have ing': "ingredientes_de_recetas (snd (eliminar_receta gestor_dos_recetas ''Flan'')) = {''huevo'', ''papa''}"
    by (simp add: ingredientes_de_recetas_def rec valores_def receta_tortilla_def)
  have n1: "''Pan'' \<notin> set (claves (recetas gestor_dos_recetas))"
    and n2: "''Flan'' \<in> set (claves (recetas gestor_dos_recetas))"
    by (simp_all add: gestor_dos_recetas_valor claves_def)
  have a: "fst (eliminar_receta gestor_dos_recetas ''Pan'') = False"
    using eliminar_receta_efecto [of "''Pan''" gestor_dos_recetas] n1 by blast
  have b: "fst (eliminar_receta gestor_dos_recetas ''Flan'') = True"
    and l: "lista_compras (snd (eliminar_receta gestor_dos_recetas ''Flan''))
              = filter (\<lambda>kv. fst kv \<in> {''huevo'', ''papa''}) (lista_compras gestor_dos_recetas)"
    using eliminar_receta_efecto [of "''Flan''" gestor_dos_recetas] n2
    by (simp_all add: Let_def ing')
  have l': "claves (lista_compras (snd (eliminar_receta gestor_dos_recetas ''Flan'')))
              = [''huevo'', ''papa'']"
    unfolding l by (simp add: gestor_dos_recetas_valor claves_def)
  show ?thesis
    using n1 n2 a b l' by (simp add: rec claves_def)
qed

text \<open>
  Claim C3. After a successful \<open>eliminar_receta\<close>, every name that is an ingredient of
  some remaining recipe is looked up in the shopping list exactly as before the call:
  it is a key if and only if it was one, with the same item and the same purchase
  state. In particular an item that was \<open>COMPRADO\<close> and is still referenced is still
  there and still \<open>COMPRADO\<close>.
\<close>

theorem eliminar_receta_conserva_referenciados:
  assumes "n \<in> set (claves (recetas g))"
  shows "let g' = snd (eliminar_receta g n) in
           \<forall>k\<in>ingredientes_de_recetas g'.
             map_of (lista_compras g') k = map_of (lista_compras g) k
             \<and> (k \<in> set (claves (lista_compras g')) \<longleftrightarrow> k \<in> set (claves (lista_compras g)))
             \<and> (\<forall>item. map_of (lista_compras g) k = Some item \<and> estado item = COMPRADO \<longrightarrow>
                   (\<exists>item'. map_of (lista_compras g') k = Some item' \<and> estado item' = COMPRADO))"
proof -
  let ?g' = "snd (eliminar_receta g n)"
  have m: "map_of (lista_compras ?g') k = map_of (lista_compras g) k"
    if "k \<in> ingredientes_de_recetas ?g'" for k
    using that
    by (simp only: eliminar_receta_lista_set [OF assms]
        map_of_filter_clave [where P = "\<lambda>x. x \<in> ingredientes_de_recetas ?g'"])
  have c: "k \<in> set (claves l) \<longleftrightarrow> map_of l k \<noteq> None" for k :: string and l :: "(string, ItemCompra) dict"
    by (simp add: claves_def map_of_eq_None_iff)
  show ?thesis
    unfolding Let_def using m by (simp add: c)
qed

theorem eliminar_receta_conserva_referenciados_witness:
  "''Flan'' \<in> set (claves (recetas gestor_huevo_comprado))
   \<and> ''huevo'' \<in> ingredientes_de_recetas (snd (eliminar_receta gestor_huevo_comprado ''Flan''))
   \<and> map_of (lista_compras gestor_huevo_comprado) ''huevo''
       = Some \<lparr>ItemCompra.nombre = ''huevo'', estado = COMPRADO\<rparr>
   \<and> map_of (lista_compras (snd (eliminar_receta gestor_huevo_comprado ''Flan''))) ''huevo''
       = Some \<lparr>ItemCompra.nombre = ''huevo'', estado = COMPRADO\<rparr>"
proof -
  have n: "''Flan'' \<in> set (claves (recetas gestor_huevo_comprado))"
    by (simp add: gestor_huevo_comprado_valor claves_def)
  have rec: "recetas (snd (eliminar_receta gestor_huevo_comprado ''Flan'')) = [(''Tortilla'', receta_tortilla)]"
    by (simp add: eliminar_receta_def gestor_huevo_comprado_valor claves_def dict_del_def Let_def)
  have ing: "''huevo'' \<in> ingredientes_de_recetas (snd (eliminar_receta gestor_huevo_comprado ''Flan''))"
    by (simp add: ingredientes_de_recetas_def rec valores_def receta_tortilla_def)
  have antes: "map_of (lista_compras gestor_huevo_comprado) ''huevo''
       = Some \<lparr>ItemCompra.nombre = ''huevo'', estado = COMPRADO\<rparr>"
    by (simp add: gestor_huevo_comprado_valor)
  show ?thesis
    using eliminar_receta_conserva_referenciados [OF n] n ing antes
    by (auto simp: Let_def)
qed

text \<open>
  Claim C10. When \<open>n\<close> is not the name of a stored recipe, \<open>eliminar_receta\<close> returns
  \<open>False\<close> and the manager it leaves is the one it was given: both dictionaries are
  unchanged.
\<close>

theorem eliminar_receta_ausente:
  "n \<notin> set (claves (recetas g)) \<Longrightarrow> eliminar_receta g n = (False, g)"
  by (simp add: eliminar_receta_def)

theorem eliminar_receta_ausente_witness:
  "''Pan'' \<notin> set (claves (recetas gestor_huevo_comprado))
   \<and> eliminar_receta gestor_huevo_comprado ''Pan'' = (False, gestor_huevo_comprado)"
proof -
  have n: "''Pan'' \<notin> set (claves (recetas gestor_huevo_comprado))"
    by (simp add: gestor_huevo_comprado_valor claves_def)
  show ?thesis
    using eliminar_receta_ausente [OF n] n by simp
qed


section \<open>Preparing a recipe: pauses\<close>









text \<open>
  Claim C9. Preparing a name that is not stored returns \<open>False\<close>; the only effect is the
  error message: no step is announced and there is no pause; the manager is unchanged.
\<close>

theorem preparar_receta_desconocida:
  assumes "n \<notin> set (claves (recetas g))"
  shows "case preparar_receta g n of
           (ok, salida, g') \<Rightarrow>
             ok = Inr False \<and> salida = [Error_no_encontrada]
             \<and> pasos_mostrados salida = [] \<and> pausas salida = [] \<and> g' = g"
  using map_of_no_clave [OF assms] by (simp add: preparar_receta_def)

theorem preparar_receta_desconocida_witness:
  "''Pan'' \<notin> set (claves (recetas gestor_dos_recetas))
   \<and> preparar_receta gestor_dos_recetas ''Pan''
       = (Inr False, [Error_no_encontrada], gestor_dos_recetas)"
proof -
  have n: "''Pan'' \<notin> set (claves (recetas gestor_dos_recetas))"
    by (simp add: gestor_dos_recetas_valor claves_def)
  show ?thesis
    using preparar_receta_desconocida [OF n] n by (auto split: prod.splits)
qed


section \<open>The shopping list and the recipes' ingredients\<close>

lemma set_dict_set: "set (dict_set d k v) \<subseteq> insert (k, v) (set d)"
  by (induction d) (auto split: if_splits)

lemma set_valores_dict_set: "set (valores (dict_set d k v)) \<subseteq> insert v (set (valores d))"
  using set_dict_set [of d k v] by (fastforce simp: valores_def)

lemma valores_dict_set_nueva: "k \<notin> set (claves d) \<Longrightarrow> valores (dict_set d k v) = valores d @ [v]"
  by (simp add: dict_set_nueva valores_def)

lemma set_valores_dict_del: "set (valores (dict_del d k)) \<subseteq> set (valores d)"
  by (auto simp: valores_def dict_del_def)

lemma ingredientes_agregar_sub:
  "ingredientes_de_recetas (agregar_receta g r)
     \<subseteq> ingredientes_de_recetas g \<union> set (ingredientes r)"
  using set_valores_dict_set [of "recetas g" "Receta.nombre r" r]
  by (fastforce simp: ingredientes_de_recetas_def agregar_receta_def)

lemma ingredientes_agregar_nueva:
  "Receta.nombre r \<notin> set (claves (recetas g)) \<Longrightarrow>
     ingredientes_de_recetas (agregar_receta g r)
       = ingredientes_de_recetas g \<union> set (ingredientes r)"
  by (auto simp: ingredientes_de_recetas_def agregar_receta_def valores_dict_set_nueva)

lemma ingredientes_eliminar_sub:
  "ingredientes_de_recetas (snd (eliminar_receta g n)) \<subseteq> ingredientes_de_recetas g"
proof (cases "n \<in> set (claves (recetas g))")
  case True
  then show ?thesis
    using set_valores_dict_del [of "recetas g" n]
    by (fastforce simp: ingredientes_de_recetas_def eliminar_receta_recetas)
next
  case False
  then show ?thesis by (simp add: eliminar_receta_def)
qed

lemma claves_agregar_receta:
  "set (claves (lista_compras (agregar_receta g r)))
     = set (claves (lista_compras g)) \<union> set (ingredientes r)"
  by (rule agregar_receta_efecto(1))

lemma claves_eliminar_receta:
  "n \<in> set (claves (recetas g)) \<Longrightarrow>
     set (claves (lista_compras (snd (eliminar_receta g n))))
       = set (claves (lista_compras g)) \<inter> ingredientes_de_recetas (snd (eliminar_receta g n))"
  by (subst eliminar_receta_lista_set) (auto simp: claves_def)

lemma indice_py_rango: "indice_py n i = Some p \<Longrightarrow> p < n"
  by (auto simp: indice_py_def Let_def split: if_splits)

lemma claves_list_update:
  "p < length l \<Longrightarrow> claves (l[p := (fst (l ! p), v)]) = claves l"
  by (simp add: claves_def map_update list_update_same_conv)

lemma recetas_marcar_comprado [simp]:
  "recetas (gestionar_marcar_comprado g num) = recetas g"
  by (simp add: gestionar_marcar_comprado_def split: option.splits prod.splits)

lemma claves_marcar_comprado [simp]:
  "claves (lista_compras (gestionar_marcar_comprado g num)) = claves (lista_compras g)"
proof (cases "indice_py (length (lista_compras g)) num")
  case None
  then show ?thesis by (simp add: gestionar_marcar_comprado_def)
next
  case (Some p)
  then have "p < length (lista_compras g)" by (rule indice_py_rango)
  then have "claves ((lista_compras g)[p := (fst (lista_compras g ! p), v)])
               = claves (lista_compras g)" for v
    by (rule claves_list_update)
  with Some show ?thesis
    by (simp add: gestionar_marcar_comprado_def split: prod.splits) (metis fst_conv)
qed

lemma ingredientes_marcar_comprado [simp]:
  "ingredientes_de_recetas (gestionar_marcar_comprado g num) = ingredientes_de_recetas g"
  by (simp add: ingredientes_de_recetas_def)

subsection \<open>Every item is stored under its own name\<close>

lemma nombres_agregar_receta:
  assumes "\<forall>kv\<in>set (lista_compras g). ItemCompra.nombre (snd kv) = fst kv"
  shows "\<forall>kv\<in>set (lista_compras (agregar_receta g r)). ItemCompra.nombre (snd kv) = fst kv"
proof -
  obtain ys where
    "lista_compras (agregar_receta g r) = lista_compras g @ ys"
    "\<forall>kv\<in>set ys. snd kv = ItemCompra_nuevo (fst kv)"
    using foldl_agregar_ingrediente [of "lista_compras g" "ingredientes r"]
    by (auto simp: agregar_receta_def)
  with assms show ?thesis
    by (auto simp: ItemCompra_nuevo_def)
qed

lemma nombres_eliminar_receta:
  assumes "\<forall>kv\<in>set (lista_compras g). ItemCompra.nombre (snd kv) = fst kv"
  shows "\<forall>kv\<in>set (lista_compras (snd (eliminar_receta g n))). ItemCompra.nombre (snd kv) = fst kv"
proof (cases "n \<in> set (claves (recetas g))")
  case True
  with assms show ?thesis by (simp add: eliminar_receta_lista)
next
  case False
  with assms show ?thesis by (simp add: eliminar_receta_def)
qed

subsection \<open>\<open>ingredientes_faltantes\<close>\<close>

lemma set_ingredientes_faltantes:
  "set (ingredientes_faltantes g)
     = ingredientes_de_recetas g - ItemCompra.nombre ` set (valores (lista_compras g))"
  by (simp add: ingredientes_faltantes_def set_set_diff set_union_ingredientes
      ingredientes_de_recetas_def set_de_lista_def)

lemma nombres_son_claves:
  "\<forall>kv\<in>set l. ItemCompra.nombre (snd kv) = fst kv \<Longrightarrow>
     ItemCompra.nombre ` set (valores l) = set (claves l)"
  by (force simp: valores_def claves_def)

lemma cubierta_tras_recetas:
  assumes "\<forall>op\<in>set ops. es_sobre_recetas op"
    and "ingredientes_de_recetas g \<subseteq> set (claves (lista_compras g))"
    and "\<forall>kv\<in>set (lista_compras g). ItemCompra.nombre (snd kv) = fst kv"
  shows "\<exists>g'. ejecutar g ops = Inr g'
           \<and> ingredientes_de_recetas g' \<subseteq> set (claves (lista_compras g'))
           \<and> (\<forall>kv\<in>set (lista_compras g'). ItemCompra.nombre (snd kv) = fst kv)"
  using assms
proof (induction ops arbitrary: g)
  case Nil
  then show ?case by simp
next
  case (Cons op ops)
  show ?case
  proof (cases op)
    case (Agregar r)
    have "ingredientes_de_recetas (agregar_receta g r)
            \<subseteq> set (claves (lista_compras (agregar_receta g r)))"
      using ingredientes_agregar_sub [of g r] Cons.prems(2)
      by (auto simp: claves_agregar_receta)
    moreover note nombres_agregar_receta [OF Cons.prems(3), of r]
    ultimately show ?thesis
      using Cons.IH [of "agregar_receta g r"] Cons.prems(1) Agregar by simp
  next
    case (Eliminar n)
    have "ingredientes_de_recetas (snd (eliminar_receta g n))
            \<subseteq> set (claves (lista_compras (snd (eliminar_receta g n))))"
    proof (cases "n \<in> set (claves (recetas g))")
      case True
      then show ?thesis
        using ingredientes_eliminar_sub [of g n] Cons.prems(2)
        by (auto simp: claves_eliminar_receta)
    next
      case False
      then show ?thesis using Cons.prems(2) by (simp add: eliminar_receta_def)
    qed
    moreover note nombres_eliminar_receta [OF Cons.prems(3), of n]
    ultimately show ?thesis
      using Cons.IH [of "snd (eliminar_receta g n)"] Cons.prems(1) Eliminar by simp
  next
    case (MarcarComprado num)
    with Cons.prems(1) show ?thesis by simp
  next
    case (EliminarItem num)
    with Cons.prems(1) show ?thesis by simp
  qed
qed

text \<open>
  Claim C5. \<open>ingredientes_faltantes\<close> holds exactly the names that are an ingredient of
  some stored recipe and are not the \<open>nombre\<close> of any item of the shopping list. From the
  new manager, every sequence of \<open>agregar_receta\<close> and \<open>eliminar_receta\<close> calls runs to
  the end and leaves \<open>ingredientes_faltantes\<close> empty.
\<close>

theorem ingredientes_faltantes_vacio:
  "set (ingredientes_faltantes g)
     = ingredientes_de_recetas g - ItemCompra.nombre ` set (valores (lista_compras g))
   \<and> ((\<forall>op\<in>set ops. es_sobre_recetas op) \<longrightarrow>
        (\<exists>g'. ejecutar GestorRecetas_init ops = Inr g' \<and> ingredientes_faltantes g' = []))"
proof (intro conjI impI)
  show "set (ingredientes_faltantes g)
     = ingredientes_de_recetas g - ItemCompra.nombre ` set (valores (lista_compras g))"
    by (rule set_ingredientes_faltantes)
next
  assume ops: "\<forall>op\<in>set ops. es_sobre_recetas op"
  have "ingredientes_de_recetas GestorRecetas_init
          \<subseteq> set (claves (lista_compras GestorRecetas_init))"
    and "\<forall>kv\<in>set (lista_compras GestorRecetas_init). ItemCompra.nombre (snd kv) = fst kv"
    by (simp_all add: GestorRecetas_init_def ingredientes_de_recetas_def valores_def)
  from cubierta_tras_recetas [OF ops this] obtain g' where g':
    "ejecutar GestorRecetas_init ops = Inr g'"
    "ingredientes_de_recetas g' \<subseteq> set (claves (lista_compras g'))"
    "\<forall>kv\<in>set (lista_compras g'). ItemCompra.nombre (snd kv) = fst kv"
    by blast
  have "set (ingredientes_faltantes g') = {}"
    using g'(2) by (simp add: set_ingredientes_faltantes nombres_son_claves [OF g'(3)])
  with g'(1) show "\<exists>g'. ejecutar GestorRecetas_init ops = Inr g' \<and> ingredientes_faltantes g' = []"
    by simp
qed

theorem ingredientes_faltantes_vacio_witness:
  "es_sobre_recetas (Agregar receta_tortilla) \<and> es_sobre_recetas (Agregar receta_flan)
   \<and> es_sobre_recetas (Eliminar ''Tortilla'')
   \<and> ejecutar GestorRecetas_init
        [Agregar receta_tortilla, Agregar receta_flan, Eliminar ''Tortilla'']
       = Inr gestor_solo_flan
   \<and> ingredientes_faltantes gestor_solo_flan = []
   \<and> ingredientes_faltantes
        \<lparr>recetas = [(''Flan'', receta_flan)],
         lista_compras = [(''huevo'', \<lparr>ItemCompra.nombre = ''huevo'', estado = COMPRADO\<rparr>)]\<rparr>
       = [''leche'']"
proof -
  let ?ops = "[Agregar receta_tortilla, Agregar receta_flan, Eliminar ''Tortilla'']"
  have a: "\<forall>op\<in>set ?ops. es_sobre_recetas op"
    by simp
  have e: "ejecutar GestorRecetas_init ?ops = Inr gestor_solo_flan"
    by (simp add: gestor_dos_recetas_def [symmetric] gestor_solo_flan_def)
  have b: "ingredientes_faltantes
        \<lparr>recetas = [(''Flan'', receta_flan)],
         lista_compras = [(''huevo'', \<lparr>ItemCompra.nombre = ''huevo'', estado = COMPRADO\<rparr>)]\<rparr>
       = [''leche'']"
    by (simp add: ingredientes_faltantes_def union_ingredientes_def valores_def set_union_def
        set_diff_def set_de_lista_def receta_flan_def)
  have "ingredientes_faltantes gestor_solo_flan = []"
    using ingredientes_faltantes_vacio [of GestorRecetas_init ?ops] a e by auto
  with e b show ?thesis by simp
qed


subsection \<open>Keys of the shopping list against the union of the ingredients\<close>

lemma claves_igual_union:
  assumes "sin_reemplazo_ni_borrado g ops"
    and "set (claves (lista_compras g)) = ingredientes_de_recetas g"
  shows "\<exists>g'. ejecutar g ops = Inr g'
           \<and> set (claves (lista_compras g')) = ingredientes_de_recetas g'"
  using assms
proof (induction g ops rule: sin_reemplazo_ni_borrado.induct)
  case (1 g)
  then show ?case by simp
next
  case (2 g r ops)
  have "set (claves (lista_compras (agregar_receta g r)))
          = ingredientes_de_recetas (agregar_receta g r)"
    using "2.prems" by (simp add: claves_agregar_receta ingredientes_agregar_nueva)
  with "2.IH" "2.prems"(1) show ?case by simp
next
  case (3 g n ops)
  have "set (claves (lista_compras (snd (eliminar_receta g n))))
          = ingredientes_de_recetas (snd (eliminar_receta g n))"
  proof (cases "n \<in> set (claves (recetas g))")
    case True
    then show ?thesis
      using ingredientes_eliminar_sub [of g n] "3.prems"(2)
      by (auto simp: claves_eliminar_receta)
  next
    case False
    then show ?thesis using "3.prems"(2) by (simp add: eliminar_receta_def)
  qed
  with "3.IH" "3.prems"(1) show ?case by simp
next
  case (4 g num ops)
  have "set (claves (lista_compras (gestionar_marcar_comprado g num)))
          = ingredientes_de_recetas (gestionar_marcar_comprado g num)"
    using "4.prems"(2) by simp
  with "4.IH" "4.prems"(1) show ?case by simp
next
  case (5 g num ops)
  then show ?case by simp
qed

lemma gestor_tortilla_valor:
  "gestor_tortilla =
     \<lparr>recetas = [(''Tortilla'', receta_tortilla)],
      lista_compras =
        [(''huevo'', \<lparr>ItemCompra.nombre = ''huevo'', estado = PENDIENTE\<rparr>),
         (''papa'', \<lparr>ItemCompra.nombre = ''papa'', estado = PENDIENTE\<rparr>)]\<rparr>"
  by (simp add: gestor_tortilla_def agregar_receta_def agregar_ingrediente_def
      GestorRecetas_init_def claves_def ItemCompra_nuevo_def receta_tortilla_def)

lemma gestor_sin_flan_valor:
  "gestor_sin_flan =
     \<lparr>recetas = [(''Tortilla'', receta_tortilla)],
      lista_compras =
        [(''huevo'', \<lparr>ItemCompra.nombre = ''huevo'', estado = COMPRADO\<rparr>),
         (''papa'', \<lparr>ItemCompra.nombre = ''papa'', estado = PENDIENTE\<rparr>)]\<rparr>"
  by (simp add: gestor_sin_flan_def gestor_huevo_comprado_valor eliminar_receta_def Let_def
      claves_def valores_def dict_del_def union_ingredientes_def set_union_def
      quitar_si_sobra_def receta_tortilla_def)

text \<open>
  Claim C4, as stated, fails on the code. After \<open>Tortilla\<close> (ingredients \<open>huevo\<close>,
  \<open>papa\<close>) is added, removing the first shopping item by hand leaves the key \<open>papa\<close>
  alone while the recipe still needs \<open>huevo\<close>. And adding a recipe under a name that
  is already stored replaces the old recipe without pruning the list: after the second
  \<open>Tortilla\<close>, which needs only \<open>huevo\<close>, the key \<open>papa\<close> is still there.
\<close>

theorem claves_igual_union_counterexample:
  "ejecutar GestorRecetas_init [Agregar receta_tortilla, EliminarItem 0]
     = Inr \<lparr>recetas = [(''Tortilla'', receta_tortilla)],
            lista_compras = [(''papa'', \<lparr>ItemCompra.nombre = ''papa'', estado = PENDIENTE\<rparr>)]\<rparr>
   \<and> set (claves [(''papa'', \<lparr>ItemCompra.nombre = ''papa'', estado = PENDIENTE\<rparr>)])
       \<noteq> ingredientes_de_recetas
            \<lparr>recetas = [(''Tortilla'', receta_tortilla)],
             lista_compras = [(''papa'', \<lparr>ItemCompra.nombre = ''papa'', estado = PENDIENTE\<rparr>)]\<rparr>
   \<and> ejecutar GestorRecetas_init [Agregar receta_tortilla, Agregar receta_tortilla_francesa]
       = Inr \<lparr>recetas = [(''Tortilla'', receta_tortilla_francesa)],
              lista_compras = lista_compras gestor_tortilla\<rparr>
   \<and> set (claves (lista_compras gestor_tortilla))
       \<noteq> ingredientes_de_recetas
            \<lparr>recetas = [(''Tortilla'', receta_tortilla_francesa)],
             lista_compras = lista_compras gestor_tortilla\<rparr>"
proof -
  have a: "ejecutar GestorRecetas_init [Agregar receta_tortilla, EliminarItem 0]
     = Inr \<lparr>recetas = [(''Tortilla'', receta_tortilla)],
            lista_compras = [(''papa'', \<lparr>ItemCompra.nombre = ''papa'', estado = PENDIENTE\<rparr>)]\<rparr>"
  proof -
    have "ejecutar GestorRecetas_init [Agregar receta_tortilla, EliminarItem 0]
            = gestionar_eliminar_item gestor_tortilla 0"
      by (simp add: gestor_tortilla_def split: sum.splits)
    then show ?thesis
      by (simp add: gestor_tortilla_valor gestionar_eliminar_item_def indice_py_def claves_def
          dict_del_def)
  qed
  have b: "ejecutar GestorRecetas_init [Agregar receta_tortilla, Agregar receta_tortilla_francesa]
       = Inr \<lparr>recetas = [(''Tortilla'', receta_tortilla_francesa)],
              lista_compras = lista_compras gestor_tortilla\<rparr>"
  proof -
    have "ejecutar GestorRecetas_init [Agregar receta_tortilla, Agregar receta_tortilla_francesa]
            = Inr (agregar_receta gestor_tortilla receta_tortilla_francesa)"
      by (simp add: gestor_tortilla_def)
    moreover have "agregar_receta gestor_tortilla receta_tortilla_francesa
            = \<lparr>recetas = [(''Tortilla'', receta_tortilla_francesa)],
               lista_compras = lista_compras gestor_tortilla\<rparr>"
      by (simp add: gestor_tortilla_valor agregar_receta_def agregar_ingrediente_def claves_def
          receta_tortilla_francesa_def)
    ultimately show ?thesis by simp
  qed
  have c: "''huevo'' \<in> ingredientes_de_recetas
            \<lparr>recetas = [(''Tortilla'', receta_tortilla)],
             lista_compras = [(''papa'', \<lparr>ItemCompra.nombre = ''papa'', estado = PENDIENTE\<rparr>)]\<rparr>"
    by (simp add: ingredientes_de_recetas_def valores_def receta_tortilla_def)
  have d: "''papa'' \<notin> ingredientes_de_recetas
            \<lparr>recetas = [(''Tortilla'', receta_tortilla_francesa)],
             lista_compras = lista_compras gestor_tortilla\<rparr>"
    by (simp add: ingredientes_de_recetas_def valores_def receta_tortilla_francesa_def)
  have e: "''huevo'' \<notin> set (claves [(''papa'', \<lparr>ItemCompra.nombre = ''papa'', estado = PENDIENTE\<rparr>)])"
    by (simp add: claves_def)
  have f: "''papa'' \<in> set (claves (lista_compras gestor_tortilla))"
    by (simp add: gestor_tortilla_valor claves_def)
  from c e have "set (claves [(''papa'', \<lparr>ItemCompra.nombre = ''papa'', estado = PENDIENTE\<rparr>)])
       \<noteq> ingredientes_de_recetas
            \<lparr>recetas = [(''Tortilla'', receta_tortilla)],
             lista_compras = [(''papa'', \<lparr>ItemCompra.nombre = ''papa'', estado = PENDIENTE\<rparr>)]\<rparr>"
    by blast
  moreover from d f have "set (claves (lista_compras gestor_tortilla))
       \<noteq> ingredientes_de_recetas
            \<lparr>recetas = [(''Tortilla'', receta_tortilla_francesa)],
             lista_compras = lista_compras gestor_tortilla\<rparr>"
    by blast
  ultimately show ?thesis using a b by blast
qed

text \<open>
  Claim C4, amended. From the new manager, every sequence of recipe additions under a
  name that is not stored at that moment, recipe removals and items marked as bought
  runs to the end, and in the manager it reaches the keys of the shopping list are
  exactly the ingredients of the stored recipes. Every prefix of such a sequence is
  such a sequence, so this holds in every state on the way.
\<close>

theorem claves_igual_union_sin_reemplazo:
  assumes "sin_reemplazo_ni_borrado GestorRecetas_init ops"
  shows "\<exists>g. ejecutar GestorRecetas_init ops = Inr g
           \<and> set (claves (lista_compras g)) = ingredientes_de_recetas g"
proof -
  have "set (claves (lista_compras GestorRecetas_init))
          = ingredientes_de_recetas GestorRecetas_init"
    by (simp add: GestorRecetas_init_def ingredientes_de_recetas_def valores_def claves_def)
  with assms show ?thesis by (rule claves_igual_union)
qed

theorem claves_igual_union_sin_reemplazo_witness:
  "sin_reemplazo_ni_borrado GestorRecetas_init
     [Agregar receta_tortilla, Agregar receta_flan, MarcarComprado 0, Eliminar ''Flan'']
   \<and> ejecutar GestorRecetas_init
        [Agregar receta_tortilla, Agregar receta_flan, MarcarComprado 0, Eliminar ''Flan'']
       = Inr gestor_sin_flan
   \<and> set (claves (lista_compras gestor_sin_flan)) = ingredientes_de_recetas gestor_sin_flan
   \<and> claves (lista_compras gestor_sin_flan) = [''huevo'', ''papa'']"
proof -
  let ?ops = "[Agregar receta_tortilla, Agregar receta_flan, MarcarComprado 0, Eliminar ''Flan'']"
  have n1: "Receta.nombre receta_tortilla \<notin> set (claves (recetas GestorRecetas_init))"
    by (simp add: GestorRecetas_init_def claves_def)
  have n2: "Receta.nombre receta_flan
              \<notin> set (claves (recetas (agregar_receta GestorRecetas_init receta_tortilla)))"
    by (simp add: gestor_tortilla_def [symmetric] gestor_tortilla_valor claves_def
        receta_flan_def)
  have h: "sin_reemplazo_ni_borrado GestorRecetas_init ?ops"
    using n1 n2 by simp
  have e: "ejecutar GestorRecetas_init ?ops = Inr gestor_sin_flan"
    by (simp add: gestor_dos_recetas_def [symmetric] gestor_huevo_comprado_def [symmetric]
        gestor_sin_flan_def)
  have "set (claves (lista_compras gestor_sin_flan)) = ingredientes_de_recetas gestor_sin_flan"
    using claves_igual_union_sin_reemplazo [OF h] e by auto
  moreover have "claves (lista_compras gestor_sin_flan) = [''huevo'', ''papa'']"
    by (simp add: gestor_sin_flan_valor claves_def)
  ultimately show ?thesis using h e by blast
qed


section \<open>Loading\<close>

lemma leer_receta_flan:
  "leer_receta ''Flan'' (receta_a_json receta_flan) = Inr (Some receta_flan)"
  by (simp add: leer_receta_def receta_a_json_def receta_flan_def set_de_lista_def)

lemma cargar_recetas_estado_malo:
  "cargar_recetas datos_estado_malo = Inr (Some [(''Flan'', receta_flan)])"
  by (simp add: cargar_recetas_def datos_estado_malo_def leer_receta_flan)

lemma cargar_lista_estado_malo: "cargar_lista datos_estado_malo = Inl KeyError"
  by (simp add: cargar_lista_def datos_estado_malo_def leer_item_def)

lemma cargar_recetas_categoria_mala: "cargar_recetas datos_categoria_mala = Inl ValueError"
  by (simp add: cargar_recetas_def datos_categoria_mala_def leer_receta_def)

text \<open>
  Every error path of \<open>cargar_datos\<close> but one leaves the manager as it was: an absent
  file, a file that cannot be read or parsed, and an exception while the recipes are
  reconstructed, which is raised before \<open>self.recetas\<close> is assigned.
\<close>

lemma cargar_datos_sin_cambio:
  "cargar_datos g Ausente = Some (g, None)"
  "cargar_datos g (Ilegible e) = Some (g, Some e)"
  "cargar_recetas datos = Inl e \<Longrightarrow> cargar_datos g (Contenido datos) = Some (g, Some e)"
  by (simp_all add: cargar_datos_def)

text \<open>
  The remaining path: the recipes are reconstructed and assigned, and then the
  reconstruction of the shopping items raises. The exception is reported, the List is
  as it was, and the Store holds the recipes of the file.
\<close>

lemma cargar_datos_lista_falla:
  "cargar_recetas datos = Inr (Some rs) \<Longrightarrow> cargar_lista datos = Inl e \<Longrightarrow>
     cargar_datos g (Contenido datos) = Some (g\<lparr>recetas := rs\<rparr>, Some e)"
  by (simp add: cargar_datos_def)

text \<open>
  Claim C7 says that a load that meets an error leaves the Store and the List empty.
  The code does so when the file is absent, when it cannot be read, and when a recipe
  is invalid (the file \<open>datos_categoria_mala\<close>): the new manager stays empty. It does not
  when an item is invalid: loading \<open>datos_estado_malo\<close> into the new manager raises
  \<open>KeyError\<close> at the item of state \<open>AGOTADO\<close>, the exception is caught and reported,
  and the manager is left with the recipe \<open>Flan\<close> in its Store and an empty List,
  because \<open>self.recetas\<close> is assigned (line 113) before the items are read (line 124).
\<close>

theorem cargar_datos_medio_cargado:
  "cargar_datos GestorRecetas_init (Contenido datos_estado_malo)
     = Some (\<lparr>recetas = [(''Flan'', receta_flan)], lista_compras = []\<rparr>, Some KeyError)
   \<and> recetas \<lparr>recetas = [(''Flan'', receta_flan)], lista_compras = []\<rparr> \<noteq> []
   \<and> cargar_datos GestorRecetas_init (Contenido datos_categoria_mala)
       = Some (GestorRecetas_init, Some ValueError)
   \<and> cargar_datos GestorRecetas_init (Ilegible OSError) = Some (GestorRecetas_init, Some OSError)
   \<and> cargar_datos GestorRecetas_init Ausente = Some (GestorRecetas_init, None)
   \<and> recetas GestorRecetas_init = [] \<and> lista_compras GestorRecetas_init = []"
  by (simp add: cargar_datos_def cargar_recetas_estado_malo cargar_lista_estado_malo
      cargar_recetas_categoria_mala GestorRecetas_init_def)

section \<open>Saving and loading again\<close>

lemma CategoriaReceta_de_valor_inv:
  "CategoriaReceta_de_valor (JStr (valor_categoria c)) = Inr c"
  by (cases c) simp_all

lemma EstadoCompra_de_nombre_inv:
  "EstadoCompra_de_nombre (JStr (nombre_estado e)) = Inr e"
  by (cases e) simp_all

lemma those_como_str: "those (map como_str (map JStr xs)) = Some xs"
  by (induction xs) simp_all

lemma those_como_str_comp: "those (map (como_str \<circ> JStr) xs) = Some xs"
  by (induction xs) simp_all

lemma set_de_json_lista: "set_de_json (JList (map JStr xs)) = Inr (Some (remdups xs))"
  by (auto simp: those_como_str_comp set_de_lista_def)

lemma como_lista_str_lista: "como_lista_str (JList (map JStr xs)) = Some xs"
  by (simp add: those_como_str_comp)

text \<open>What a recipe saved under the key \<open>n\<close> is read back as.\<close>

lemma leer_receta_guardada:
  "leer_receta n (receta_a_json r)
     = Inr (Some \<lparr>Receta.nombre = n, categoria = categoria r,
                  ingredientes = remdups (ingredientes r), pasos = pasos r,
                  tiempo_preparacion = tiempo_preparacion r\<rparr>)"
  by (simp add: leer_receta_def receta_a_json_def CategoriaReceta_de_valor_inv
      set_de_json_lista como_lista_str_lista
      del: CategoriaReceta_de_valor.simps set_de_json.simps como_lista_str.simps)

lemma leer_item_guardado:
  "leer_item (item_a_json i) = Inr (Some (ItemCompra.nombre i, i))"
  by (cases i)
    (simp add: leer_item_def item_a_json_def EstadoCompra_de_nombre_inv
      del: EstadoCompra_de_nombre.simps)

lemma guardar_recetas_distintas:
  assumes "distinct (claves d)" and "set (claves acc) \<inter> set (claves d) = {}"
  shows "foldl (\<lambda>a (n, r). dict_set a n (receta_a_json r)) acc d
           = acc @ map (\<lambda>kv. (fst kv, receta_a_json (snd kv))) d"
  using assms
proof (induction d arbitrary: acc)
  case Nil
  show ?case by simp
next
  case (Cons kv d)
  obtain n r where kv: "kv = (n, r)" by (cases kv)
  have n: "n \<notin> set (claves acc)"
    using Cons.prems(2) by (auto simp: kv claves_def)
  have "distinct (claves d)"
    and "set (claves (acc @ [(n, receta_a_json r)])) \<inter> set (claves d) = {}"
    using Cons.prems by (auto simp: kv claves_def)
  from Cons.IH [OF this] n show ?case
    by (simp add: kv dict_set_nueva)
qed

lemma construir_recetas_guardadas:
  assumes "distinct (claves d)" and "set (claves acc) \<inter> set (claves d) = {}"
  shows "construir_recetas (Some acc) (map (\<lambda>kv. (fst kv, receta_a_json (snd kv))) d)
           = Inr (Some (acc @ map (\<lambda>kv. (fst kv,
                   \<lparr>Receta.nombre = fst kv, categoria = categoria (snd kv),
                    ingredientes = remdups (ingredientes (snd kv)), pasos = pasos (snd kv),
                    tiempo_preparacion = tiempo_preparacion (snd kv)\<rparr>)) d))"
  using assms
proof (induction d arbitrary: acc)
  case Nil
  show ?case by simp
next
  case (Cons kv d)
  let ?r = "\<lparr>Receta.nombre = fst kv, categoria = categoria (snd kv),
             ingredientes = remdups (ingredientes (snd kv)), pasos = pasos (snd kv),
             tiempo_preparacion = tiempo_preparacion (snd kv)\<rparr>"
  have n: "fst kv \<notin> set (claves acc)"
    using Cons.prems(2) by (auto simp: claves_def)
  have "distinct (claves d)"
    and "set (claves (acc @ [(fst kv, ?r)])) \<inter> set (claves d) = {}"
    using Cons.prems by (auto simp: claves_def)
  from Cons.IH [OF this] n show ?case
    by (simp add: leer_receta_guardada dict_set_nueva)
qed

lemma construir_lista_guardada:
  assumes "distinct (claves l)" and "set (claves acc) \<inter> set (claves l) = {}"
    and "\<forall>kv\<in>set l. ItemCompra.nombre (snd kv) = fst kv"
  shows "construir_lista (Some acc) (map item_a_json (valores l)) = Inr (Some (acc @ l))"
  using assms
proof (induction l arbitrary: acc)
  case Nil
  show ?case by (simp add: valores_def)
next
  case (Cons kv l)
  obtain k v where kv: "kv = (k, v)" by (cases kv)
  have k: "ItemCompra.nombre v = k"
    using Cons.prems(3) by (simp add: kv)
  have n: "k \<notin> set (claves acc)"
    using Cons.prems(2) by (auto simp: kv claves_def)
  have "distinct (claves l)"
    and "set (claves (acc @ [(k, v)])) \<inter> set (claves l) = {}"
    and "\<forall>kv\<in>set l. ItemCompra.nombre (snd kv) = fst kv"
    using Cons.prems by (auto simp: kv claves_def)
  from Cons.IH [OF this] n k show ?case
    by (simp add: kv valores_def leer_item_guardado dict_set_nueva)
qed

text \<open>The manager that loading a saved, well-formed manager produces.\<close>

lemma cargar_guardado:
  assumes "bien_formado s"
  shows "cargar_datos g0 (guardar_datos s)
           = Some (\<lparr>recetas = map (\<lambda>kv. (fst kv,
                        \<lparr>Receta.nombre = fst kv, categoria = categoria (snd kv),
                         ingredientes = remdups (ingredientes (snd kv)),
                         pasos = pasos (snd kv),
                         tiempo_preparacion = tiempo_preparacion (snd kv)\<rparr>)) (recetas s),
                     lista_compras = lista_compras s\<rparr>, None)"
proof -
  have d: "distinct (claves (recetas s))" "distinct (claves (lista_compras s))"
    and k: "\<forall>kv\<in>set (lista_compras s). ItemCompra.nombre (snd kv) = fst kv"
    using assms by (simp_all add: bien_formado_def)
  have r: "foldl (\<lambda>a (n, r). dict_set a n (receta_a_json r)) [] (recetas s)
             = map (\<lambda>kv. (fst kv, receta_a_json (snd kv))) (recetas s)"
    using guardar_recetas_distintas [OF d(1), of "[]"] by (simp add: claves_def)
  have cr: "construir_recetas (Some []) (map (\<lambda>kv. (fst kv, receta_a_json (snd kv))) (recetas s))
             = Inr (Some (map (\<lambda>kv. (fst kv,
                        \<lparr>Receta.nombre = fst kv, categoria = categoria (snd kv),
                         ingredientes = remdups (ingredientes (snd kv)),
                         pasos = pasos (snd kv),
                         tiempo_preparacion = tiempo_preparacion (snd kv)\<rparr>)) (recetas s)))"
    using construir_recetas_guardadas [OF d(1), of "[]"] by (simp add: claves_def)
  have cl: "construir_lista (Some []) (map item_a_json (valores (lista_compras s)))
             = Inr (Some (lista_compras s))"
    using construir_lista_guardada [OF d(2) _ k, of "[]"] by (simp add: claves_def)
  show ?thesis
    by (simp add: cargar_datos_def guardar_datos_def cargar_recetas_def cargar_lista_def
        r cr cl)
qed

subsection \<open>Every operation keeps the manager well formed\<close>

lemma distinct_dict_set: "distinct (claves d) \<Longrightarrow> distinct (claves (dict_set d k v))"
  by (simp add: claves_dict_set_lista)

lemma distinct_dict_del: "distinct (claves d) \<Longrightarrow> distinct (claves (dict_del d k))"
  by (simp add: claves_def dict_del_def distinct_map_filter)

lemma distinct_agregar_ingredientes:
  "distinct (claves l) \<Longrightarrow> distinct (claves (foldl agregar_ingrediente l xs))"
  by (induction xs arbitrary: l) (simp_all add: agregar_ingrediente_def distinct_dict_set)

lemma bien_formado_init: "bien_formado GestorRecetas_init"
  by (simp add: bien_formado_def GestorRecetas_init_def claves_def)

lemma bien_formado_agregar:
  assumes "bien_formado g"
  shows "bien_formado (agregar_receta g r)"
proof -
  have "\<forall>kv\<in>set (recetas (agregar_receta g r)). Receta.nombre (snd kv) = fst kv"
    using assms set_dict_set [of "recetas g" "Receta.nombre r" r]
    by (fastforce simp: bien_formado_def agregar_receta_def)
  moreover have "distinct (claves (recetas (agregar_receta g r)))"
    using assms by (simp add: bien_formado_def agregar_receta_def distinct_dict_set)
  moreover have "distinct (claves (lista_compras (agregar_receta g r)))"
    using assms by (simp add: bien_formado_def agregar_receta_def distinct_agregar_ingredientes)
  moreover have "\<forall>kv\<in>set (lista_compras (agregar_receta g r)). ItemCompra.nombre (snd kv) = fst kv"
    using assms by (intro nombres_agregar_receta) (simp add: bien_formado_def)
  ultimately show ?thesis by (simp add: bien_formado_def)
qed

lemma bien_formado_eliminar:
  assumes "bien_formado g"
  shows "bien_formado (snd (eliminar_receta g n))"
proof (cases "n \<in> set (claves (recetas g))")
  case True
  with assms show ?thesis
    by (auto simp: bien_formado_def eliminar_receta_recetas eliminar_receta_lista
        distinct_dict_del dict_del_def claves_def distinct_map_filter)
next
  case False
  with assms show ?thesis by (simp add: eliminar_receta_def)
qed

lemma bien_formado_marcar:
  assumes "bien_formado g"
  shows "bien_formado (gestionar_marcar_comprado g num)"
proof (cases "indice_py (length (lista_compras g)) num")
  case None
  with assms show ?thesis by (simp add: gestionar_marcar_comprado_def)
next
  case (Some p)
  then have p: "p < length (lista_compras g)" by (rule indice_py_rango)
  obtain k item where ki: "lista_compras g ! p = (k, item)"
    by (cases "lista_compras g ! p")
  have "(k, item) \<in> set (lista_compras g)"
    using p ki by (metis nth_mem)
  then have "ItemCompra.nombre item = k"
    using assms by (auto simp: bien_formado_def)
  then have "\<forall>kv\<in>set ((lista_compras g)[p := (k, item\<lparr>estado := COMPRADO\<rparr>)]).
               ItemCompra.nombre (snd kv) = fst kv"
    using assms set_update_subset_insert [of "lista_compras g" p "(k, item\<lparr>estado := COMPRADO\<rparr>)"]
    by (fastforce simp: bien_formado_def)
  moreover have "lista_compras (gestionar_marcar_comprado g num)
                   = (lista_compras g)[p := (k, item\<lparr>estado := COMPRADO\<rparr>)]"
    using Some ki by (simp add: gestionar_marcar_comprado_def)
  ultimately show ?thesis
    using assms by (simp add: bien_formado_def del: claves_marcar_comprado)
      (metis claves_marcar_comprado)
qed

lemma bien_formado_eliminar_item:
  assumes "bien_formado g" and "gestionar_eliminar_item g num = Inr g'"
  shows "bien_formado g'"
  using assms
  by (auto simp: gestionar_eliminar_item_def bien_formado_def dict_del_def claves_def
      distinct_map_filter split: option.splits prod.splits if_splits)

lemma bien_formado_ejecutar:
  "bien_formado g \<Longrightarrow> ejecutar g ops = Inr g' \<Longrightarrow> bien_formado g'"
proof (induction ops arbitrary: g)
  case Nil
  then show ?case by simp
next
  case (Cons op ops)
  show ?case
  proof (cases op)
    case (Agregar r)
    with Cons.prems Cons.IH [of "agregar_receta g r"] show ?thesis
      by (simp add: bien_formado_agregar)
  next
    case (Eliminar n)
    with Cons.prems Cons.IH [of "snd (eliminar_receta g n)"] show ?thesis
      by (simp add: bien_formado_eliminar)
  next
    case (MarcarComprado num)
    with Cons.prems Cons.IH [of "gestionar_marcar_comprado g num"] show ?thesis
      by (simp add: bien_formado_marcar)
  next
    case (EliminarItem num)
    with Cons.prems Cons.IH show ?thesis
      by (auto split: sum.splits dest: bien_formado_eliminar_item)
  qed
qed

lemma leer_receta_nombre: "leer_receta n d = Inr (Some r) \<Longrightarrow> Receta.nombre r = n"
  by (auto simp: leer_receta_def split: sum.splits option.splits)

lemma leer_item_nombre: "leer_item x = Inr (Some (k, v)) \<Longrightarrow> ItemCompra.nombre v = k"
  by (auto simp: leer_item_def split: sum.splits option.splits if_splits)

lemma construir_recetas_None: "construir_recetas None kvs = Inr x \<Longrightarrow> x = None"
  by (induction kvs) (auto split: sum.splits)

lemma construir_lista_None: "construir_lista None xs = Inr x \<Longrightarrow> x = None"
  by (induction xs) (auto split: sum.splits)

lemma construir_recetas_bien_formadas:
  assumes "construir_recetas (Some acc) kvs = Inr (Some d)"
    and "distinct (claves acc)" and "\<forall>kv\<in>set acc. Receta.nombre (snd kv) = fst kv"
  shows "distinct (claves d) \<and> (\<forall>kv\<in>set d. Receta.nombre (snd kv) = fst kv)"
  using assms
proof (induction kvs arbitrary: acc)
  case Nil
  then show ?case by simp
next
  case (Cons kv kvs)
  obtain n datos_r where kv: "kv = (n, datos_r)" by (cases kv)
  from Cons.prems(1) obtain r where r: "leer_receta n datos_r = Inr r"
    by (auto simp: kv split: sum.splits)
  show ?case
  proof (cases r)
    case None
    with Cons.prems(1) r construir_recetas_None [of kvs "Some d"] show ?thesis
      by (simp add: kv)
  next
    case (Some r')
    have "Receta.nombre r' = n"
      using r Some by (simp add: leer_receta_nombre)
    then have "\<forall>kv\<in>set (dict_set acc n r'). Receta.nombre (snd kv) = fst kv"
      using Cons.prems(3) set_dict_set [of acc n r'] by fastforce
    moreover have "distinct (claves (dict_set acc n r'))"
      using Cons.prems(2) by (rule distinct_dict_set)
    moreover have "construir_recetas (Some (dict_set acc n r')) kvs = Inr (Some d)"
      using Cons.prems(1) r Some by (simp add: kv)
    ultimately show ?thesis
      using Cons.IH by blast
  qed
qed

lemma construir_lista_bien_formada:
  assumes "construir_lista (Some acc) xs = Inr (Some d)"
    and "distinct (claves acc)" and "\<forall>kv\<in>set acc. ItemCompra.nombre (snd kv) = fst kv"
  shows "distinct (claves d) \<and> (\<forall>kv\<in>set d. ItemCompra.nombre (snd kv) = fst kv)"
  using assms
proof (induction xs arbitrary: acc)
  case Nil
  then show ?case by simp
next
  case (Cons x xs)
  from Cons.prems(1) obtain r where r: "leer_item x = Inr r"
    by (auto split: sum.splits)
  show ?case
  proof (cases r)
    case None
    with Cons.prems(1) r construir_lista_None [of xs "Some d"] show ?thesis
      by simp
  next
    case (Some kv)
    obtain k v where kv: "kv = (k, v)" by (cases kv)
    have "ItemCompra.nombre v = k"
      using r Some kv by (simp add: leer_item_nombre)
    then have "\<forall>kv\<in>set (dict_set acc k v). ItemCompra.nombre (snd kv) = fst kv"
      using Cons.prems(3) set_dict_set [of acc k v] by fastforce
    moreover have "distinct (claves (dict_set acc k v))"
      using Cons.prems(2) by (rule distinct_dict_set)
    moreover have "construir_lista (Some (dict_set acc k v)) xs = Inr (Some d)"
      using Cons.prems(1) r Some kv by simp
    ultimately show ?thesis
      using Cons.IH by blast
  qed
qed

lemma bien_formado_cargar:
  assumes "bien_formado g" and "cargar_datos g f = Some (g', e)"
  shows "bien_formado g'"
proof (cases f)
  case Ausente
  with assms show ?thesis by (simp add: cargar_datos_def)
next
  case (Ilegible x)
  with assms show ?thesis by (simp add: cargar_datos_def)
next
  case (Contenido datos)
  show ?thesis
  proof (cases "cargar_recetas datos")
    case (Inl x)
    with assms Contenido show ?thesis by (simp add: cargar_datos_def)
  next
    case (Inr rso)
    with assms(2) Contenido obtain rs where rs: "rso = Some rs"
      by (cases rso) (simp_all add: cargar_datos_def)
    have "distinct (claves rs) \<and> (\<forall>kv\<in>set rs. Receta.nombre (snd kv) = fst kv)"
      using Inr rs
      by (auto simp: cargar_recetas_def claves_def split: sum.splits
          dest!: construir_recetas_bien_formadas)
    then have g1: "bien_formado (g\<lparr>recetas := rs\<rparr>)"
      using assms(1) by (simp add: bien_formado_def)
    show ?thesis
    proof (cases "cargar_lista datos")
      case (Inl x)
      with assms(2) Contenido Inr rs g1 show ?thesis
        by (auto simp: cargar_datos_def)
    next
      case l: (Inr lo)
      with assms(2) Contenido Inr rs obtain l' where l': "lo = Some l'"
        by (cases lo) (simp_all add: cargar_datos_def)
      have "distinct (claves l') \<and> (\<forall>kv\<in>set l'. ItemCompra.nombre (snd kv) = fst kv)"
        using l l'
        by (auto simp: cargar_lista_def claves_def split: sum.splits
            dest!: construir_lista_bien_formada)
      with assms(2) Contenido Inr rs l l' g1 show ?thesis
        by (auto simp: cargar_datos_def bien_formado_def)
    qed
  qed
qed

text \<open>
  Claim C6. For every well-formed manager \<open>s\<close> (dictionaries with unique keys, each
  recipe and each item stored under its own name; categories, states and the other
  fields are those of the types), and whatever the manager \<open>g0\<close> that loads, loading
  what \<open>guardar_datos s\<close> wrote succeeds, reports no exception and yields a manager
  equal to \<open>s\<close>: the same recipes under the same keys in the same order, equal field by
  field with the ingredients compared as sets, and the same shopping list. Every manager
  the program holds is well formed: the new one is, and loading a file and the four
  operations keep it so (\<open>bien_formado_init\<close>, \<open>bien_formado_cargar\<close>,
  \<open>bien_formado_ejecutar\<close>).
\<close>

theorem guardar_cargar_ida_y_vuelta:
  assumes "bien_formado s"
  shows "\<exists>s'. cargar_datos g0 (guardar_datos s) = Some (s', None) \<and> mismo_estado s' s"
proof -
  let ?s' = "\<lparr>recetas = map (\<lambda>kv. (fst kv,
                        \<lparr>Receta.nombre = fst kv, categoria = categoria (snd kv),
                         ingredientes = remdups (ingredientes (snd kv)),
                         pasos = pasos (snd kv),
                         tiempo_preparacion = tiempo_preparacion (snd kv)\<rparr>)) (recetas s),
              lista_compras = lista_compras s\<rparr>"
  have n: "\<forall>kv\<in>set (recetas s). Receta.nombre (snd kv) = fst kv"
    using assms by (simp add: bien_formado_def)
  have "mismo_estado ?s' s"
    using n by (simp add: mismo_estado_def misma_receta_def list_all2_map1 list_all2_same)
  with cargar_guardado [OF assms, of g0] show ?thesis by blast
qed

lemma bien_formado_huevo_comprado: "bien_formado gestor_huevo_comprado"
  by (simp add: bien_formado_def gestor_huevo_comprado_valor claves_def
      receta_tortilla_def receta_flan_def)

theorem guardar_cargar_ida_y_vuelta_witness:
  "bien_formado gestor_huevo_comprado
   \<and> (\<exists>s'. cargar_datos GestorRecetas_init (guardar_datos gestor_huevo_comprado)
              = Some (s', None)
          \<and> mismo_estado s' gestor_huevo_comprado)"
  using guardar_cargar_ida_y_vuelta [OF bien_formado_huevo_comprado, of GestorRecetas_init]
    bien_formado_huevo_comprado
  by simp

end
